theory Spec2Isabelle
  imports Main
begin

section \<open>JavaScript strings and arrays\<close>

text \<open>
  Strings are lists of characters.  The helpers below are the \<^verbatim>\<open>String.prototype\<close>
  and \<^verbatim>\<open>Array.prototype\<close> methods that \<^verbatim>\<open>import-open-api.ts\<close> calls, with a
  literal (non-regex) pattern.
\<close>

definition startsWith :: "string \<Rightarrow> string \<Rightarrow> bool" where
  "startsWith s p = (take (length p) s = p)"

text \<open>\<^verbatim>\<open>s.includes(sub)\<close>: \<open>sub\<close> occurs somewhere in \<open>s\<close>.\<close>

fun includes_str :: "string \<Rightarrow> string \<Rightarrow> bool" where
  "includes_str [] sub = (sub = [])"
| "includes_str (c # cs) sub = (startsWith (c # cs) sub \<or> includes_str cs sub)"

text \<open>\<^verbatim>\<open>s.replace(pat, rep)\<close> with a string pattern: only the first occurrence is replaced.\<close>

fun replace :: "string \<Rightarrow> string \<Rightarrow> string \<Rightarrow> string" where
  "replace [] pat rep = (if pat = [] then rep else [])"
| "replace (c # cs) pat rep =
     (if startsWith (c # cs) pat then rep @ drop (length pat) (c # cs)
      else c # replace cs pat rep)"

text \<open>\<^verbatim>\<open>xs.join(sep)\<close>\<close>

fun join :: "string list \<Rightarrow> string \<Rightarrow> string" where
  "join [] sep = []"
| "join [x] sep = x"
| "join (x # y # ys) sep = x @ sep @ join (y # ys) sep"

text \<open>\<^verbatim>\<open>s.split("\n")\<close>: the pieces between the separator characters; never empty.\<close>

fun split :: "string \<Rightarrow> char \<Rightarrow> string list" where
  "split [] sep = [[]]"
| "split (c # cs) sep =
     (if c = sep then [] # split cs sep
      else (case split cs sep of [] \<Rightarrow> [[c]] | w # ws \<Rightarrow> (c # w) # ws))"

text \<open>\<^verbatim>\<open>" ".repeat(n)\<close>\<close>

definition spaces :: "nat \<Rightarrow> string" where
  "spaces n = replicate n (CHR '' '')"

text \<open>lodash \<^verbatim>\<open>uniq\<close>: the first occurrence of every element is kept, in order.\<close>

fun uniq_acc :: "'a list \<Rightarrow> 'a list \<Rightarrow> 'a list" where
  "uniq_acc seen [] = []"
| "uniq_acc seen (x # xs) =
     (if x \<in> set seen then uniq_acc seen xs else x # uniq_acc (x # seen) xs)"

definition uniq :: "'a list \<Rightarrow> 'a list" where
  "uniq xs = uniq_acc [] xs"

text \<open>JavaScript truthiness of an optional string: \<^verbatim>\<open>undefined\<close> and \<^verbatim>\<open>""\<close> are falsy.\<close>

fun truthy :: "string option \<Rightarrow> bool" where
  "truthy None = False"
| "truthy (Some s) = (s \<noteq> [])"

text \<open>\<^verbatim>\<open>\w\<close> of a JavaScript regular expression.\<close>

definition isWordChar :: "char \<Rightarrow> bool" where
  "isWordChar c =
     (c \<in> set ''abcdefghijklmnopqrstuvwxyzABCDEFGHIJKLMNOPQRSTUVWXYZ0123456789_'')"

text \<open>\<^verbatim>\<open>const IdentifierRegexp = /^[a-zA-Z_$][a-zA-Z0-9_$]*$/\<close>, as \<^verbatim>\<open>IdentifierRegexp.test(key)\<close>.\<close>

definition isIdentStart :: "char \<Rightarrow> bool" where
  "isIdentStart c =
     (c \<in> set ''abcdefghijklmnopqrstuvwxyzABCDEFGHIJKLMNOPQRSTUVWXYZ_$'')"

definition isIdentChar :: "char \<Rightarrow> bool" where
  "isIdentChar c =
     (c \<in> set ''abcdefghijklmnopqrstuvwxyzABCDEFGHIJKLMNOPQRSTUVWXYZ0123456789_$'')"

fun IdentifierRegexp :: "string \<Rightarrow> bool" where
  "IdentifierRegexp [] = False"
| "IdentifierRegexp (c # cs) = (isIdentStart c \<and> list_all isIdentChar cs)"

section \<open>Errors\<close>

text \<open>Every \<^verbatim>\<open>throw\<close> of the generator, with the data its message is built from.\<close>

datatype error =
    UnsupportedRef
  | ArrayWithoutItems
  | NoOperationId string string
  | DuplicatedOperationId string
  | PathParamNotFound string string
  | DiscriminatorOutsideSchemas
  | TypeError

section \<open>Schema nodes\<close>

text \<open>
  A \<^verbatim>\<open>SchemaObject | ReferenceObject\<close> of \<^verbatim>\<open>openapi3-ts\<close> is one JavaScript object;
  every field the generator reads is optional (\<open>None\<close> is \<^verbatim>\<open>undefined\<close>: the key is
  absent).  \<open>otherKeys\<close> says whether the object has any key besides the ones listed
  (\<^verbatim>\<open>format\<close>, \<^verbatim>\<open>title\<close>, \<^verbatim>\<open>example\<close>, ...): only lodash \<^verbatim>\<open>isEmpty\<close> can tell.
  An object is kept as the list of its entries in the order of \<^verbatim>\<open>Object.entries\<close>.
  The values of \<^verbatim>\<open>enum\<close> are kept as the strings \<^verbatim>\<open>Array.prototype.join\<close> prints.
\<close>

datatype schema = Schema
  (ref: "string option")
  (type: "string option")
  (nullable: "bool option")
  (enum: "string list option")
  (items: "schema option")
  (properties: "(string \<times> schema) list option")
  (additionalProperties: "additional option")
  (required: "string list option")
  (allOf: "schema list option")
  (oneOf: "schema list option")
  (description: "string option")
  (otherKeys: bool)
and additional = AdditionalBool bool | AdditionalSchema schema

text \<open>\<^verbatim>\<open>isReference(property) = Boolean(property && property.$ref)\<close>\<close>

definition isReference :: "schema \<Rightarrow> bool" where
  "isReference property = truthy (ref property)"

text \<open>lodash \<^verbatim>\<open>isEmpty\<close> on a schema object: it has no own key.\<close>

definition isEmpty :: "schema \<Rightarrow> bool" where
  "isEmpty s =
     (ref s = None \<and> type s = None \<and> nullable s = None \<and> enum s = None \<and> items s = None \<and>
      properties s = None \<and> additionalProperties s = None \<and> required s = None \<and>
      allOf s = None \<and> oneOf s = None \<and> description s = None \<and> \<not> otherKeys s)"

definition dq :: string where "dq = [CHR 0x22]"

definition getRef :: "(string \<Rightarrow> string) \<Rightarrow> string \<Rightarrow> error + string" where
  "getRef pascal r =
     (if startsWith r ''#/components/schemas''
        then Inr (pascal (replace r ''#/components/schemas/'' ''''))
      else if startsWith r ''#/components/responses''
        then Inr (pascal (replace r ''#/components/responses/'' '''') @ ''Response'')
      else if startsWith r ''#/components/parameters''
        then Inr (pascal (replace r ''#/components/parameters/'' '''') @ ''Parameter'')
      else if startsWith r ''#/components/requestBodies''
        then Inr (pascal (replace r ''#/components/requestBodies/'' '''') @ ''RequestBody'')
      else Inl UnsupportedRef)"

definition formatDescription :: "string option \<Rightarrow> nat \<Rightarrow> string" where
  "formatDescription d tabSize =
     (if truthy d
      then ''/**\<newline>'' @
           join (map (\<lambda>i. spaces tabSize @ '' * '' @ i) (split (the d) CHR ''\<newline>'')) ''\<newline>'' @
           ''\<newline>'' @ spaces tabSize @ '' */\<newline>'' @ spaces tabSize
      else [])"

lemma size_items: "items s = Some i \<Longrightarrow> size i < size s"
  by (cases s) simp

lemma size_allOf: "allOf s = Some xs \<Longrightarrow> size_list size xs < size s"
  by (cases s) simp

lemma size_oneOf: "oneOf s = Some xs \<Longrightarrow> size_list size xs < size s"
  by (cases s) simp

lemma size_properties: "properties s = Some ps \<Longrightarrow> size_list (size_prod (\<lambda>_. 0) size) ps < size s"
  by (cases s) simp

lemma size_additional: "additionalProperties s = Some (AdditionalSchema a) \<Longrightarrow> size a < size s"
  by (cases s) simp

function getScalar :: "(string \<Rightarrow> string) \<Rightarrow> schema option \<Rightarrow> error + string"
  and getArray :: "(string \<Rightarrow> string) \<Rightarrow> schema \<Rightarrow> error + string"
  and getObject :: "(string \<Rightarrow> string) \<Rightarrow> schema \<Rightarrow> error + string"
  and resolveValue :: "(string \<Rightarrow> string) \<Rightarrow> schema option \<Rightarrow> error + string"
  and resolveValues :: "(string \<Rightarrow> string) \<Rightarrow> schema list \<Rightarrow> error + string list"
  and resolveProperties ::
    "(string \<Rightarrow> string) \<Rightarrow> string list \<Rightarrow> (string \<times> schema) list \<Rightarrow> error + string list"
where
  "getScalar pascal None = Inr []"
| "getScalar pascal (Some item) =
     (let nullable' = (if nullable item = Some True then '' | null'' else [])
      in if type item \<in> Some ` set [''int32'', ''int64'', ''number'', ''integer'', ''long'', ''float'', ''double'']
           then Inr (''number'' @ nullable')
         else if type item = Some ''boolean''
           then Inr (''boolean'' @ nullable')
         else if type item = Some ''array''
           then (case getArray pascal item of Inl e \<Rightarrow> Inl e | Inr t \<Rightarrow> Inr (t @ nullable'))
         else if type item \<in> Some ` set [''string'', ''byte'', ''binary'', ''date'', ''dateTime'', ''date-time'', ''password'']
           then Inr ((case enum item of
                        Some vs \<Rightarrow> dq @ join vs (dq @ '' | '' @ dq) @ dq
                      | None \<Rightarrow> ''string'') @ nullable')
         else (case getObject pascal item of Inl e \<Rightarrow> Inl e | Inr t \<Rightarrow> Inr (t @ nullable')))"
| "getArray pascal item =
     (case items item of
        Some its \<Rightarrow>
          (case resolveValue pascal (Some its) of
             Inl e \<Rightarrow> Inl e
           | Inr t \<Rightarrow>
               Inr (if \<not> isReference its \<and> (oneOf its \<noteq> None \<or> allOf its \<noteq> None \<or> enum its \<noteq> None)
                    then ''('' @ t @ '')[]''
                    else t @ ''[]''))
      | None \<Rightarrow> Inl ArrayWithoutItems)"
| "getObject pascal item =
     (if isReference item then getRef pascal (the (ref item))
      else case allOf item of
        Some xs \<Rightarrow> (case resolveValues pascal xs of Inl e \<Rightarrow> Inl e | Inr ts \<Rightarrow> Inr (join ts '' & ''))
      | None \<Rightarrow>
      (case oneOf item of
        Some xs \<Rightarrow> (case resolveValues pascal xs of Inl e \<Rightarrow> Inl e | Inr ts \<Rightarrow> Inr (join ts '' | ''))
      | None \<Rightarrow>
      if \<not> truthy (type item) \<and> properties item = None \<and>
         additionalProperties item \<in> {None, Some (AdditionalBool False)}
        then Inr ''{}''
      else if type item = Some ''object'' \<and> properties item = None \<and>
         (case additionalProperties item of
            None \<Rightarrow> True
          | Some (AdditionalBool b) \<Rightarrow> True
          | Some (AdditionalSchema a) \<Rightarrow> isEmpty a)
        then Inr ''{[key: string]: any}''
      else
        (case (case properties item of
                 None \<Rightarrow> Inr ''{\<newline>''
               | Some ps \<Rightarrow>
                   (case resolveProperties pascal (case required item of None \<Rightarrow> [] | Some r \<Rightarrow> r) ps of
                      Inl e \<Rightarrow> Inl e
                    | Inr ls \<Rightarrow> Inr (''{\<newline>'' @ join ls ''\<newline>''))) of
           Inl e \<Rightarrow> Inl e
         | Inr output1 \<Rightarrow>
        (case (case additionalProperties item of
                 None \<Rightarrow> Inr output1
               | Some (AdditionalBool False) \<Rightarrow> Inr output1
               | Some (AdditionalBool True) \<Rightarrow>
                   Inr (output1 @ (if properties item \<noteq> None then ''\<newline>'' else []) @
                        ''  [key: string]: any;'')
               | Some (AdditionalSchema a) \<Rightarrow>
                   (case resolveValue pascal (Some a) of
                      Inl e \<Rightarrow> Inl e
                    | Inr t \<Rightarrow>
                        Inr (output1 @ (if properties item \<noteq> None then ''\<newline>'' else []) @
                             ''  [key: string]: '' @ t @ '';''))) of
           Inl e \<Rightarrow> Inl e
         | Inr output2 \<Rightarrow>
             if properties item \<noteq> None \<or>
                additionalProperties item \<notin> {None, Some (AdditionalBool False)}
             then (if output2 = ''{\<newline>'' then Inr ''{}'' else Inr (output2 @ ''\<newline>}''))
             else Inr (if type item = Some ''object'' then ''{[key: string]: any}'' else ''any'')))))"
| "resolveValue pascal None = getScalar pascal None"
| "resolveValue pascal (Some s) =
     (if isReference s then getRef pascal (the (ref s)) else getScalar pascal (Some s))"
| "resolveValues pascal [] = Inr []"
| "resolveValues pascal (x # xs) =
     (case resolveValue pascal (Some x) of
        Inl e \<Rightarrow> Inl e
      | Inr t \<Rightarrow> (case resolveValues pascal xs of Inl e \<Rightarrow> Inl e | Inr ts \<Rightarrow> Inr (t # ts)))"
| "resolveProperties pascal req [] = Inr []"
| "resolveProperties pascal req ((key, prop) # ps) =
     (let doc = (if isReference prop then [] else formatDescription (description prop) 2);
          isRequired = (key \<in> set req);
          processedKey = (if IdentifierRegexp key then key else dq @ key @ dq)
      in case resolveValue pascal (Some prop) of
           Inl e \<Rightarrow> Inl e
         | Inr t \<Rightarrow>
             (case resolveProperties pascal req ps of
                Inl e \<Rightarrow> Inl e
              | Inr ls \<Rightarrow>
                  Inr ((''  '' @ doc @ processedKey @ (if isRequired then [] else ''?'') @ '': '' @ t @ '';'') # ls)))"
  by pat_completeness auto
termination
  apply (relation "inv_image (measure id <*lex*> measure id) (\<lambda>x. case x of
      Inl (Inl (p, so)) \<Rightarrow> (size_option size so, 2::nat)
    | Inl (Inr (Inl (p, s))) \<Rightarrow> (size s + 1, 1)
    | Inl (Inr (Inr (p, s))) \<Rightarrow> (size s + 1, 1)
    | Inr (Inl (p, so)) \<Rightarrow> (size_option size so, 3)
    | Inr (Inr (Inl (p, xs))) \<Rightarrow> (size_list size xs + 1, 0)
    | Inr (Inr (Inr (p, r, ps))) \<Rightarrow> (size_list (size_prod (\<lambda>_. 0) size) ps + 1, 0))")
  apply (auto dest: size_items size_allOf size_oneOf size_properties size_additional)
  done

declare getScalar.simps(2) [simp del] getArray.simps [simp del] getObject.simps [simp del]
  resolveValue.simps(2) [simp del]

section \<open>Requests and responses\<close>

text \<open>
  A \<^verbatim>\<open>ResponseObject | ReferenceObject | RequestBodyObject\<close>: the fields that
  \<^verbatim>\<open>getResReqTypes\<close> reads.  \<open>content\<close> is the list of the entries of \<^verbatim>\<open>res.content\<close>, in the
  order of \<^verbatim>\<open>Object.keys\<close> (the keys of an object are distinct, so \<^verbatim>\<open>res.content[contentType]\<close>
  is the value of the entry).
\<close>

record mediaType =
  media_schema :: "schema option"

record resreq =
  res_ref :: "string option"
  content :: "(string \<times> mediaType) list option"
  res_description :: "string option"

text \<open>\<^verbatim>\<open>Array.prototype.map\<close> with a callback that may throw: the first error wins.\<close>

fun mapE :: "('a \<Rightarrow> error + 'b) \<Rightarrow> 'a list \<Rightarrow> error + 'b list" where
  "mapE f [] = Inr []"
| "mapE f (x # xs) =
     (case f x of
        Inl e \<Rightarrow> Inl e
      | Inr y \<Rightarrow> (case mapE f xs of Inl e \<Rightarrow> Inl e | Inr ys \<Rightarrow> Inr (y # ys)))"

text \<open>
  The loop \<^verbatim>\<open>for (let contentType of Object.keys(res.content))\<close> of \<^verbatim>\<open>getResReqTypes\<close>:
  the first entry whose content type starts with one of the two accepted types.
\<close>

fun findContent :: "(string \<times> mediaType) list \<Rightarrow> mediaType option" where
  "findContent [] = None"
| "findContent ((contentType, m) # rest) =
     (if startsWith contentType ''application/json'' \<or>
         startsWith contentType ''application/octet-stream''
      then Some m else findContent rest)"

text \<open>The callback that \<^verbatim>\<open>getResReqTypes\<close> maps over its entries (\<^verbatim>\<open>([_, res]) => ...\<close>).\<close>

fun getResReqType :: "(string \<Rightarrow> string) \<Rightarrow> string \<times> resreq option \<Rightarrow> error + string" where
  "getResReqType pascal (_, None) = Inr ''void''"
| "getResReqType pascal (_, Some res) =
     (if truthy (res_ref res) then getRef pascal (the (res_ref res))
      else case content res of
        Some c \<Rightarrow>
          (case findContent c of
             Some m \<Rightarrow> resolveValue pascal (media_schema m)
           | None \<Rightarrow> Inr ''void'')
      | None \<Rightarrow> Inr ''void'')"

definition getResReqTypes ::
  "(string \<Rightarrow> string) \<Rightarrow> (string \<times> resreq option) list \<Rightarrow> error + string" where
  "getResReqTypes pascal responsesOrRequests =
     (case mapE (getResReqType pascal) responsesOrRequests of
        Inl e \<Rightarrow> Inl e
      | Inr ts \<Rightarrow> Inr (join (uniq ts) '' | ''))"

section \<open>Routes\<close>

text \<open>
  \<^verbatim>\<open>getParamsInPath\<close>: the loop over \<^verbatim>\<open>/\{(\w+)}/g.exec(path)\<close>.  A match starts at an opening
  brace that is followed by one or more word characters and a closing brace; the search
  goes on after the closing brace, and one character further when there is no match here.
\<close>

function getParamsInPath :: "string \<Rightarrow> string list" where
  "getParamsInPath [] = []"
| "getParamsInPath (c # cs) =
     (if c = CHR ''{'' \<and> takeWhile isWordChar cs \<noteq> [] \<and> startsWith (dropWhile isWordChar cs) ''}''
      then takeWhile isWordChar cs # getParamsInPath (drop 1 (dropWhile isWordChar cs))
      else getParamsInPath cs)"
  by pat_completeness auto
termination
  by (relation "measure length") (auto intro: le_imp_less_Suc order_trans [OF diff_le_self length_dropWhile_le])

text \<open>\<^verbatim>\<open>route.replace(/\{/g, "${")\<close>\<close>

definition replaceBraces :: "string \<Rightarrow> string" where
  "replaceBraces route = concat (map (\<lambda>c. if c = CHR ''{'' then ''${'' else [c]) route)"

text \<open>
  \<^verbatim>\<open>const lastParamInTheRouteRegExp = /\/\$\{(\w+)\}\/?$/\<close>.  \<open>lastParamHere s\<close> matches the
  expression at the start of \<open>s\<close> and returns the group; \<open>lastParamInTheRouteRegExp s\<close> is the
  leftmost match in \<open>s\<close>: the text before the match and the group.  The match ends at the end
  of the input, so \<^verbatim>\<open>route.replace(lastParamInTheRouteRegExp, "")\<close> is the text before it.
\<close>

definition lastParamHere :: "string \<Rightarrow> string option" where
  "lastParamHere s =
     (if startsWith s ''/${'' \<and> takeWhile isWordChar (drop 3 s) \<noteq> [] \<and>
         (dropWhile isWordChar (drop 3 s) = ''}'' \<or> dropWhile isWordChar (drop 3 s) = ''}/'')
      then Some (takeWhile isWordChar (drop 3 s)) else None)"

fun lastParamInTheRouteRegExp :: "string \<Rightarrow> (string \<times> string) option" where
  "lastParamInTheRouteRegExp [] = None"
| "lastParamInTheRouteRegExp (c # cs) =
     (case lastParamHere (c # cs) of
        Some w \<Rightarrow> Some ([], w)
      | None \<Rightarrow>
          (case lastParamInTheRouteRegExp cs of
             None \<Rightarrow> None
           | Some (before, w) \<Rightarrow> Some (c # before, w)))"

section \<open>Operations\<close>

text \<open>
  A \<^verbatim>\<open>ParameterObject | ReferenceObject\<close> and an \<^verbatim>\<open>OperationObject\<close>.
\<close>

record parameter =
  p_ref :: "string option"
  p_name :: "string option"
  p_in :: "string option"
  p_required :: "bool option"
  p_schema :: "schema option"
  p_description :: "string option"

record operation =
  operationId :: "string option"
  op_parameters :: "parameter list option"
  requestBody :: "resreq option"
  responses :: "(string \<times> resreq) list"
  summary :: "string option"
  op_description :: "string option"

text \<open>
  The \<^verbatim>\<open>ComponentsObject\<close>, as the tree that a parameter reference walks.  A reference may
  point at any value under \<^verbatim>\<open>components\<close>, and the generator reads what it finds there as a
  parameter: a node holds the fields that the generator reads from the value
  (\<^verbatim>\<open>name\<close>, \<^verbatim>\<open>in\<close>, \<^verbatim>\<open>required\<close>, \<^verbatim>\<open>schema\<close>, \<^verbatim>\<open>description\<close>; all absent when the value has
  none of them) and the own entries of the value.
\<close>

datatype components =
  Components (asParameter: parameter) (members: "(string \<times> components) list")

text \<open>The value that \<^verbatim>\<open>generateRestfulComponent\<close> returns under \<^verbatim>\<open>component\<close>.\<close>

record typeNames =
  response :: string
  query :: string
  body :: string

record component =
  componentName :: string
  c_verb :: string
  c_route :: string
  c_description :: string
  c_typeNames :: typeNames
  c_errorTypes :: string
  c_headerParams :: "parameter list"
  c_paramsInPath :: "string list"
  c_paramsTypes :: string
  c_operation :: operation

text \<open>
  lodash \<^verbatim>\<open>get(object, path)\<close> and \<^verbatim>\<open>set(object, path, value)\<close> cut a path that is written
  without brackets at its dots (\<^verbatim>\<open>stringToPath\<close>), unless the path has no dot or is itself a
  key of the object (\<^verbatim>\<open>castPath\<close>, with the keys of the object as its second argument).
\<close>

definition stringToPath :: "string \<Rightarrow> string list" where
  "stringToPath path = split path (CHR ''.'')"

definition castPath :: "string \<Rightarrow> string list \<Rightarrow> string list" where
  "castPath path keys =
     (if CHR ''.'' \<notin> set path \<or> path \<in> set keys then [path] else stringToPath path)"

text \<open>
  lodash \<^verbatim>\<open>get\<close>, after its \<^verbatim>\<open>baseGet\<close>: the walk goes down one key at a time and yields
  \<^verbatim>\<open>undefined\<close> as soon as a key is missing; an empty path yields \<^verbatim>\<open>undefined\<close> as well.
\<close>

fun baseGet :: "components \<Rightarrow> string list \<Rightarrow> components option" where
  "baseGet object [] = Some object"
| "baseGet object (key # path) =
     (case map_of (members object) key of
        None \<Rightarrow> None
      | Some v \<Rightarrow> baseGet v path)"

definition get_path :: "components option \<Rightarrow> string \<Rightarrow> components option" where
  "get_path object path =
     (case object of
        None \<Rightarrow> None
      | Some c \<Rightarrow>
          (let keys = castPath path (map fst (members c))
           in if keys = [] then None else baseGet c keys))"

text \<open>
  \<^verbatim>\<open>get(schemasComponents, p.$ref.replace("#/components/", "").replace("/", "."))\<close>: only
  the first slash after the prefix becomes a dot, and the pointer is followed wherever it
  leads under \<^verbatim>\<open>components\<close>.
\<close>

definition getParameter :: "components option \<Rightarrow> string \<Rightarrow> parameter option" where
  "getParameter schemasComponents r =
     map_option asParameter
       (get_path schemasComponents (replace (replace r ''#/components/'' []) ''/'' ''.''))"

text \<open>
  The list that \<^verbatim>\<open>groupBy(..., "in")\<close> receives: the parameters of the path item, then
  those of the operation, every reference replaced by what it points to.
\<close>

definition mergedParameters ::
  "components option \<Rightarrow> parameter list \<Rightarrow> operation \<Rightarrow> parameter option list" where
  "mergedParameters schemasComponents parameters operation =
     map (\<lambda>p. if truthy (p_ref p) then getParameter schemasComponents (the (p_ref p)) else Some p)
       (parameters @ (case op_parameters operation of None \<Rightarrow> [] | Some ps \<Rightarrow> ps))"

text \<open>One group of \<^verbatim>\<open>groupBy(..., "in")\<close>, in the order of the list.\<close>

definition groupIn :: "string \<Rightarrow> parameter option list \<Rightarrow> parameter list" where
  "groupIn k ps = concat (map (\<lambda>p. case p of
       None \<Rightarrow> []
     | Some q \<Rightarrow> if p_in q = Some k then [q] else []) ps)"

text \<open>A template literal prints \<^verbatim>\<open>undefined\<close> for a missing value.\<close>

fun toStr :: "string option \<Rightarrow> string" where
  "toStr None = ''undefined''"
| "toStr (Some s) = s"

definition isOk :: "string \<times> resreq option \<Rightarrow> bool" where
  "isOk e = startsWith (fst e) ''2''"

definition isError :: "string \<times> resreq option \<Rightarrow> bool" where
  "isError e =
     (startsWith (fst e) ''4'' \<or> startsWith (fst e) ''5'' \<or> fst e = ''default'')"

text \<open>\<^verbatim>\<open>Object.entries(operation.responses)\<close>\<close>

definition responseEntries :: "operation \<Rightarrow> (string \<times> resreq option) list" where
  "responseEntries operation = map (\<lambda>(statusCode, res). (statusCode, Some res)) (responses operation)"

text \<open>\<^verbatim>\<open>x || d\<close> on strings.\<close>

definition orElse :: "string \<Rightarrow> string \<Rightarrow> string" where
  "orElse x d = (if x = [] then d else x)"

definition responseTypes :: "(string \<Rightarrow> string) \<Rightarrow> operation \<Rightarrow> error + string" where
  "responseTypes pascal operation =
     (case getResReqTypes pascal (filter isOk (responseEntries operation)) of
        Inl e \<Rightarrow> Inl e
      | Inr t \<Rightarrow> Inr (orElse t ''void''))"

definition errorTypes :: "(string \<Rightarrow> string) \<Rightarrow> operation \<Rightarrow> error + string" where
  "errorTypes pascal operation =
     (case getResReqTypes pascal (filter isError (responseEntries operation)) of
        Inl e \<Rightarrow> Inl e
      | Inr t \<Rightarrow> Inr (orElse t ''unknown''))"

definition requestBodyTypes :: "(string \<Rightarrow> string) \<Rightarrow> operation \<Rightarrow> error + string" where
  "requestBodyTypes pascal operation =
     getResReqTypes pascal [(''body'', requestBody operation)]"

text \<open>The callback of \<^verbatim>\<open>paramsInPath.map\<close>: whatever is thrown inside its \<^verbatim>\<open>try\<close> is replaced.\<close>

definition paramsType ::
  "(string \<Rightarrow> string) \<Rightarrow> parameter list \<Rightarrow> string \<Rightarrow> string \<Rightarrow> error + string" where
  "paramsType pascal pathParams oid p =
     (case find (\<lambda>i. p_name i = Some p) pathParams of
        None \<Rightarrow> Inl (PathParamNotFound p oid)
      | Some i \<Rightarrow>
          (case resolveValue pascal (p_schema i) of
             Inl _ \<Rightarrow> Inl (PathParamNotFound p oid)
           | Inr t \<Rightarrow>
               Inr (toStr (p_name i) @ (if p_required i = Some True then [] else ''?'') @
                    '': '' @ t)))"

text \<open>The callback of \<^verbatim>\<open>queryParams.map\<close>.\<close>

definition queryParamType :: "(string \<Rightarrow> string) \<Rightarrow> parameter \<Rightarrow> error + string" where
  "queryParamType pascal p =
     (let processedName =
            (if IdentifierRegexp (toStr (p_name p)) then toStr (p_name p)
             else dq @ toStr (p_name p) @ dq)
      in case resolveValue pascal (p_schema p) of
           Inl e \<Rightarrow> Inl e
         | Inr t \<Rightarrow>
             Inr (formatDescription (p_description p) 2 @ processedName @
                  (if p_required p = Some True then [] else ''?'') @ '': '' @ t))"

text \<open>
  \<^verbatim>\<open>generateRestfulComponent\<close>.  The array \<^verbatim>\<open>operationIds\<close>, which the function extends, is
  returned with the result: \<open>(output, component, operationIds)\<close>.  An error ends the whole
  run, so nothing is returned with it.  The steps follow the order of the source, which
  decides the error that is thrown when several steps would fail.
\<close>

definition generateRestfulComponent ::
  "(string \<Rightarrow> string) \<Rightarrow> (string \<Rightarrow> string \<Rightarrow> string) option \<Rightarrow> operation \<Rightarrow> string \<Rightarrow> string \<Rightarrow>
   string list \<Rightarrow> parameter list \<Rightarrow> components option \<Rightarrow>
   error + (string \<times> component \<times> string list)" where
  "generateRestfulComponent pascal customOperationNameGenerator operation0 verb route0
       operationIds0 parameters schemasComponents =
     (case (if truthy (operationId operation0) then Inr operation0
            else case customOperationNameGenerator of
                   None \<Rightarrow> Inl (NoOperationId verb route0)
                 | Some g \<Rightarrow> Inr (operation0\<lparr>operationId := Some (g verb route0)\<rparr>)) of
        Inl e \<Rightarrow> Inl e
      | Inr operation \<Rightarrow>
     if toStr (operationId operation) \<in> set operationIds0
       then Inl (DuplicatedOperationId (toStr (operationId operation)))
     else
     let operationIds = operationIds0 @ [toStr (operationId operation)];
         route1 = replaceBraces route0;
         lastParamInTheRoute =
           (if verb = ''delete'' then map_option snd (lastParamInTheRouteRegExp route1) else None);
         route =
           (if verb = ''delete''
            then (case lastParamInTheRouteRegExp route1 of
                    Some (before, _) \<Rightarrow> before
                  | None \<Rightarrow> route1)
            else route1);
         componentName = pascal (toStr (operationId operation))
     in
     case responseTypes pascal operation of Inl e \<Rightarrow> Inl e | Inr responseTypes' \<Rightarrow>
     case errorTypes pascal operation of Inl e \<Rightarrow> Inl e | Inr errorTypes' \<Rightarrow>
     case requestBodyTypes pascal operation of Inl e \<Rightarrow> Inl e | Inr requestBodyTypes' \<Rightarrow>
     let needARequestBodyComponent = includes_str requestBodyTypes' ''{'';
         needAResponseComponent = includes_str responseTypes' ''{'';
         paramsInPath =
           filter (\<lambda>param. \<not> (verb = ''delete'' \<and> Some param = lastParamInTheRoute))
             (getParamsInPath route);
         merged = mergedParameters schemasComponents parameters operation;
         queryParams = groupIn ''query'' merged;
         pathParams = groupIn ''path'' merged;
         headerParams = groupIn ''header'' merged
     in
     case mapE (paramsType pascal pathParams (toStr (operationId operation))) paramsInPath of
       Inl e \<Rightarrow> Inl e | Inr paramsTypes' \<Rightarrow>
     case mapE (queryParamType pascal) queryParams of
       Inl e \<Rightarrow> Inl e | Inr queryParamsTypes \<Rightarrow>
     let paramsTypes = join paramsTypes' '', '';
         queryParamsType = join queryParamsTypes '';\<newline>  '';
         description =
           formatDescription
             (Some (if truthy (summary operation) \<and> truthy (op_description operation)
                    then the (summary operation) @ ''\<newline>\<newline>'' @ the (op_description operation)
                    else (if truthy (summary operation) then the (summary operation) else []) @
                         (if truthy (op_description operation)
                          then the (op_description operation) else []))) 0;
         output =
           (if needAResponseComponent
            then ''\<newline>      export '' @
                 (if includes_str responseTypes' ''|'' \<or> includes_str responseTypes' ''&''
                  then ''type '' @ componentName @ ''Response ='' 
                  else ''interface '' @ componentName @ ''Response'') @
                 '' '' @ responseTypes' @ ''\<newline>    ''
            else []) @
           (if queryParamsType \<noteq> []
            then ''\<newline>      export interface '' @ componentName @ ''QueryParams {\<newline>        '' @
                 queryParamsType @ '';\<newline>      }\<newline>    ''
            else []) @
           (if needARequestBodyComponent
            then ''\<newline>      export interface '' @ componentName @ ''RequestBody '' @
                 requestBodyTypes' @ ''\<newline>    ''
            else [])
     in
     Inr (output,
          \<lparr> componentName = componentName,
            c_verb = verb,
            c_route = route,
            c_description = description,
            c_typeNames =
              \<lparr> response =
                  (if needAResponseComponent then componentName @ ''Response'' else responseTypes'),
                query = (if queryParamsType \<noteq> [] then componentName @ ''QueryParams'' else ''any''),
                body =
                  (if needARequestBodyComponent then componentName @ ''RequestBody''
                   else if requestBodyTypes' = ''void'' then ''any'' else requestBodyTypes') \<rparr>,
            c_errorTypes = errorTypes',
            c_headerParams = headerParams,
            c_paramsInPath = paramsInPath,
            c_paramsTypes = paramsTypes,
            c_operation = operation \<rparr>,
          operationIds))"

section \<open>The walk over the paths\<close>

text \<open>
  A \<^verbatim>\<open>PathItemObject\<close>: its \<^verbatim>\<open>parameters\<close> and, in the order of \<^verbatim>\<open>Object.entries\<close>, its
  entries that hold an operation.  The two functions are the nested \<^verbatim>\<open>forEach\<close> loops of
  \<^verbatim>\<open>importOpenApi\<close>; their state is \<open>(output, components, operationIds)\<close>, and an error
  thrown by \<open>generateRestfulComponent\<close> ends the run.
\<close>

record pathItem =
  item_parameters :: "parameter list option"
  item_entries :: "(string \<times> operation) list"

fun importOpenApi_verbs ::
  "(string \<Rightarrow> string) \<Rightarrow> (string \<Rightarrow> string \<Rightarrow> string) option \<Rightarrow> components option \<Rightarrow> string \<Rightarrow>
   parameter list option \<Rightarrow> (string \<times> operation) list \<Rightarrow> string \<times> component list \<times> string list \<Rightarrow>
   error + (string \<times> component list \<times> string list)" where
  "importOpenApi_verbs pascal gen comps route params [] st = Inr st"
| "importOpenApi_verbs pascal gen comps route params ((verb, operation) # rest)
       (output, cs, operationIds) =
     (if verb \<in> set [''get'', ''post'', ''patch'', ''put'', ''delete''] then
        (case generateRestfulComponent pascal gen operation verb route operationIds
                (case params of None \<Rightarrow> [] | Some ps \<Rightarrow> ps) comps of
           Inl e \<Rightarrow> Inl e
         | Inr (componentOutput, c, operationIds') \<Rightarrow>
             importOpenApi_verbs pascal gen comps route params rest
               (output @ componentOutput, cs @ [c], operationIds'))
      else importOpenApi_verbs pascal gen comps route params rest (output, cs, operationIds))"

fun importOpenApi_paths ::
  "(string \<Rightarrow> string) \<Rightarrow> (string \<Rightarrow> string \<Rightarrow> string) option \<Rightarrow> components option \<Rightarrow>
   (string \<times> pathItem) list \<Rightarrow> string \<times> component list \<times> string list \<Rightarrow>
   error + (string \<times> component list \<times> string list)" where
  "importOpenApi_paths pascal gen comps [] st = Inr st"
| "importOpenApi_paths pascal gen comps ((route, verbs) # rest) st =
     (case importOpenApi_verbs pascal gen comps route (item_parameters verbs)
             (item_entries verbs) st of
        Inl e \<Rightarrow> Inl e
      | Inr st' \<Rightarrow> importOpenApi_paths pascal gen comps rest st')"

section \<open>The discriminator propagator\<close>

text \<open>
  \<^verbatim>\<open>resolveDiscriminator\<close> changes the document in place with lodash \<^verbatim>\<open>set\<close>, which creates
  whatever the path names: the document is a tree as \<^verbatim>\<open>JSON.parse\<close> builds it, and the
  function returns the changed tree.  An object is the list of its own entries in the order
  of \<^verbatim>\<open>Object.entries\<close>; an array is an object whose keys are its indices (the flag of
  \<open>JObject\<close> is true for an array).  lodash is not part of the repository: \<^verbatim>\<open>set\<close> follows its
  documentation and its \<^verbatim>\<open>baseSet\<close>, for paths written without brackets and keys that name
  no function inherited from \<^verbatim>\<open>Object.prototype\<close> (such as \<^verbatim>\<open>toString\<close>).
\<close>

datatype json =
    JUndefined
  | JNull
  | JBool bool
  | JNum int
  | JStr string
  | JObject bool "(string \<times> json) list"

text \<open>JavaScript truthiness.\<close>

fun truthyJ :: "json \<Rightarrow> bool" where
  "truthyJ JUndefined = False"
| "truthyJ JNull = False"
| "truthyJ (JBool b) = b"
| "truthyJ (JNum n) = (n \<noteq> 0)"
| "truthyJ (JStr s) = (s \<noteq> [])"
| "truthyJ (JObject a kvs) = True"

text \<open>lodash \<^verbatim>\<open>isObject\<close>.\<close>

fun isObject :: "json \<Rightarrow> bool" where
  "isObject (JObject a kvs) = True"
| "isObject _ = False"

text \<open>\<^verbatim>\<open>object[key]\<close> on the own properties of an object.\<close>

definition own :: "(string \<times> json) list \<Rightarrow> string \<Rightarrow> json" where
  "own kvs k = (case map_of kvs k of None \<Rightarrow> JUndefined | Some v \<Rightarrow> v)"

text \<open>
  The property reads of \<^verbatim>\<open>resolveDiscriminator\<close> (\<^verbatim>\<open>.components\<close>, \<^verbatim>\<open>.schemas\<close>, \<^verbatim>\<open>.$ref\<close>,
  \<^verbatim>\<open>.discriminator\<close>, \<^verbatim>\<open>.mapping\<close>, \<^verbatim>\<open>.propertyName\<close>): a read on \<^verbatim>\<open>null\<close> or \<^verbatim>\<open>undefined\<close>
  throws, and a string, a number or a boolean has none of these properties.
\<close>

fun getProp :: "json \<Rightarrow> string \<Rightarrow> error + json" where
  "getProp JUndefined k = Inl TypeError"
| "getProp JNull k = Inl TypeError"
| "getProp (JObject a kvs) k = Inr (own kvs k)"
| "getProp _ k = Inr JUndefined"

text \<open>
  lodash \<^verbatim>\<open>isIndex\<close> on a key (\<^verbatim>\<open>/^(?:0|[1-9]\d*)$/\<close>, below \<^verbatim>\<open>Number.MAX_SAFE_INTEGER\<close>), and the
  array indices of JavaScript (below \<^verbatim>\<open>2^32 - 1\<close>), which an object enumerates first, in
  ascending order.
\<close>

definition isDigit :: "char \<Rightarrow> bool" where
  "isDigit c = (c \<in> set ''0123456789'')"

definition digitValue :: "char \<Rightarrow> nat" where
  "digitValue c = (case map_of (zip ''0123456789'' [0, 1, 2, 3, 4, 5, 6, 7, 8, 9]) c of
     None \<Rightarrow> 0 | Some d \<Rightarrow> d)"

definition natOf :: "string \<Rightarrow> nat" where
  "natOf s = foldl (\<lambda>n c. 10 * n + digitValue c) 0 s"

definition reIsUint :: "string \<Rightarrow> bool" where
  "reIsUint s = (s = ''0'' \<or> (s \<noteq> [] \<and> hd s \<noteq> CHR ''0'' \<and> list_all isDigit s))"

definition isIndex :: "string \<Rightarrow> bool" where
  "isIndex s = (reIsUint s \<and> natOf s < 9007199254740991)"

definition isArrayIndex :: "string \<Rightarrow> bool" where
  "isArrayIndex s = (reIsUint s \<and> natOf s < 4294967295)"

text \<open>
  \<^verbatim>\<open>object[key] = value\<close>: the value of an own key is replaced where it stands; a new key
  comes after the others, or at its place among the array indices.
\<close>

fun insertKey :: "string \<Rightarrow> json \<Rightarrow> (string \<times> json) list \<Rightarrow> (string \<times> json) list" where
  "insertKey k v [] = [(k, v)]"
| "insertKey k v ((k', v') # kvs) =
     (if isArrayIndex k \<and> (\<not> isArrayIndex k' \<or> natOf k < natOf k')
      then (k, v) # (k', v') # kvs
      else (k', v') # insertKey k v kvs)"

definition assign :: "(string \<times> json) list \<Rightarrow> string \<Rightarrow> json \<Rightarrow> (string \<times> json) list" where
  "assign kvs k v =
     (if k \<in> fst ` set kvs then map (\<lambda>(k', v'). if k' = k then (k', v) else (k', v')) kvs
      else insertKey k v kvs)"

text \<open>
  lodash \<^verbatim>\<open>set(object, path, value)\<close>, after its \<^verbatim>\<open>baseSet\<close>: along the path, a value that is
  not an object is replaced by a new array when the next key is an index and by a new object
  otherwise; the last key receives the value.  The walk stops at the keys \<^verbatim>\<open>__proto__\<close>,
  \<^verbatim>\<open>constructor\<close> and \<^verbatim>\<open>prototype\<close>, and leaves in place what it has written for the keys
  before them.  A path is one key when it has no dot or is a key of the object, and is cut
  at its dots otherwise.
\<close>

definition unsafeKey :: "string \<Rightarrow> bool" where
  "unsafeKey key \<longleftrightarrow> key = ''__proto__'' \<or> key = ''constructor'' \<or> key = ''prototype''"

fun baseSet :: "json \<Rightarrow> string list \<Rightarrow> json \<Rightarrow> json" where
  "baseSet (JObject a kvs) [key] val =
     (if unsafeKey key then JObject a kvs else JObject a (assign kvs key val))"
| "baseSet (JObject a kvs) (key # next # rest) val =
     (if unsafeKey key then JObject a kvs
      else JObject a (assign kvs key
             (baseSet (if isObject (own kvs key) then own kvs key
                       else JObject (isIndex next) [])
                (next # rest) val)))"
| "baseSet object path val = object"

definition set_path :: "json \<Rightarrow> string \<Rightarrow> json \<Rightarrow> json" where
  "set_path object path val =
     baseSet object (castPath path (case object of JObject a kvs \<Rightarrow> map fst kvs | _ \<Rightarrow> [])) val"

text \<open>The value at a list of keys (lodash \<^verbatim>\<open>get\<close> with an array path); \<^verbatim>\<open>undefined\<close> when there is none.\<close>

fun getPath :: "json \<Rightarrow> string list \<Rightarrow> json" where
  "getPath v [] = v"
| "getPath (JObject a kvs) (k # ks) = getPath (own kvs k) ks"
| "getPath _ (k # ks) = JUndefined"

text \<open>What a template literal prints for a value: \<^verbatim>\<open>String(value)\<close>.\<close>

function showNat :: "nat \<Rightarrow> string" where
  "showNat n = (if n < 10 then [''0123456789'' ! n] else showNat (n div 10) @ [''0123456789'' ! (n mod 10)])"
  by pat_completeness auto
termination
  by (relation "measure id") auto

fun toString :: "json \<Rightarrow> string" and joinValues :: "(string \<times> json) list \<Rightarrow> string list" where
  "toString JUndefined = ''undefined''"
| "toString JNull = ''null''"
| "toString (JBool b) = (if b then ''true'' else ''false'')"
| "toString (JNum n) = (if n < 0 then ''-'' @ showNat (nat (- n)) else showNat (nat n))"
| "toString (JStr s) = s"
| "toString (JObject a kvs) = (if a then join (joinValues kvs) '','' else ''[object Object]'')"
| "joinValues [] = []"
| "joinValues ((k, v) # kvs) =
     (if v = JUndefined \<or> v = JNull then [] else toString v) # joinValues kvs"

text \<open>\<^verbatim>\<open>Object.entries\<close> (and the values of \<^verbatim>\<open>Object.values\<close>) of a truthy value.\<close>

fun objectEntries :: "json \<Rightarrow> (string \<times> json) list" where
  "objectEntries (JObject a kvs) = kvs"
| "objectEntries (JStr s) = map (\<lambda>i. (showNat i, JStr [s ! i])) [0 ..< length s]"
| "objectEntries _ = []"

text \<open>\<^verbatim>\<open>isReference\<close> on a value of the document.\<close>

definition isReferenceJ :: "json \<Rightarrow> bool" where
  "isReferenceJ property =
     (truthyJ property \<and> (case getProp property ''$ref'' of Inr r \<Rightarrow> truthyJ r | Inl e \<Rightarrow> False))"

text \<open>
  The inner loop \<^verbatim>\<open>Object.entries(mapping).forEach(([name, ref]) => ...)\<close>: \<^verbatim>\<open>ref.startsWith\<close>
  throws a \<^verbatim>\<open>TypeError\<close> when \<^verbatim>\<open>ref\<close> is not a string.
\<close>

fun forEachMapping :: "json \<Rightarrow> string \<Rightarrow> (string \<times> json) list \<Rightarrow> error + json" where
  "forEachMapping specs propertyName [] = Inr specs"
| "forEachMapping specs propertyName ((name, JStr r) # rest) =
     (if \<not> startsWith r ''#/components/schemas/'' then Inl DiscriminatorOutsideSchemas
      else forEachMapping
             (set_path specs
                (''components.schemas.'' @ drop (length ''#/components/schemas/'') r @
                 ''.properties.'' @ propertyName @ ''.enum'')
                (JObject True [(''0'', JStr name)]))
             propertyName rest)"
| "forEachMapping specs propertyName ((name, other) # rest) = Inl TypeError"

text \<open>The callback of the outer loop, on one schema.\<close>

definition propagate :: "json \<Rightarrow> json \<Rightarrow> error + json" where
  "propagate specs schema =
     (if isReferenceJ schema then Inr specs
      else case getProp schema ''discriminator'' of
        Inl e \<Rightarrow> Inl e
      | Inr d \<Rightarrow>
          if \<not> truthyJ d then Inr specs
          else (case getProp d ''mapping'' of
                  Inl e \<Rightarrow> Inl e
                | Inr m \<Rightarrow>
                    if \<not> truthyJ m then Inr specs
                    else (case getProp d ''propertyName'' of
                            Inl e \<Rightarrow> Inl e
                          | Inr p \<Rightarrow> forEachMapping specs (toString p) (objectEntries m))))"

text \<open>
  The outer loop over \<^verbatim>\<open>Object.values(specs.components.schemas)\<close>.  The values are taken
  before the loop starts; a value that is an object is the object that \<^verbatim>\<open>set\<close> may have
  changed in the meantime, so it is read again from the document (\<^verbatim>\<open>set\<close> never replaces
  an object by another).
\<close>

fun forEachSchema :: "json \<Rightarrow> (string \<times> json) list \<Rightarrow> error + json" where
  "forEachSchema specs [] = Inr specs"
| "forEachSchema specs ((k, v) # rest) =
     (case propagate specs
             (if isObject v then getPath specs [''components'', ''schemas'', k] else v) of
        Inl e \<Rightarrow> Inl e
      | Inr specs' \<Rightarrow> forEachSchema specs' rest)"

definition resolveDiscriminator :: "json \<Rightarrow> error + json" where
  "resolveDiscriminator specs =
     (case getProp specs ''components'' of
        Inl e \<Rightarrow> Inl e
      | Inr c \<Rightarrow>
          if \<not> truthyJ c then Inr specs
          else (case getProp c ''schemas'' of
                  Inl e \<Rightarrow> Inl e
                | Inr s \<Rightarrow>
                    if \<not> truthyJ s then Inr specs
                    else forEachSchema specs (objectEntries s)))"

section \<open>The definitions of the component schemas\<close>

text \<open>
  \<^verbatim>\<open>generateInterface\<close>, the callback that \<^verbatim>\<open>generateSchemasDefinition\<close> maps over
  \<^verbatim>\<open>Object.entries(schemas)\<close>, and \<^verbatim>\<open>generateSchemasDefinition\<close>.  A missing \<^verbatim>\<open>schemas\<close>
  (\<open>None\<close>) takes the default \<^verbatim>\<open>{}\<close>.
\<close>

definition generateInterface :: "(string \<Rightarrow> string) \<Rightarrow> string \<Rightarrow> schema \<Rightarrow> error + string" where
  "generateInterface pascal name schema =
     (case getScalar pascal (Some schema) of
        Inl e \<Rightarrow> Inl e
      | Inr scalar \<Rightarrow>
          Inr (formatDescription (description schema) 0 @ ''export interface '' @ pascal name @
               '' '' @ scalar))"

definition schemaDefinition :: "(string \<Rightarrow> string) \<Rightarrow> string \<times> schema \<Rightarrow> error + string" where
  "schemaDefinition pascal entry =
     (case entry of (name, schema) \<Rightarrow>
        if \<not> isReference schema \<and>
           (\<not> truthy (type schema) \<or> type schema = Some ''object'') \<and>
           allOf schema = None \<and> oneOf schema = None \<and>
           \<not> isReference schema \<and> nullable schema \<noteq> Some True
        then generateInterface pascal name schema
        else (case resolveValue pascal (Some schema) of
                Inl e \<Rightarrow> Inl e
              | Inr t \<Rightarrow>
                  Inr (formatDescription (if isReference schema then None else description schema) 0 @
                       ''export type '' @ pascal name @ '' = '' @ t @ '';'')))"

definition generateSchemasDefinition ::
  "(string \<Rightarrow> string) \<Rightarrow> (string \<times> schema) list option \<Rightarrow> error + string" where
  "generateSchemasDefinition pascal schemas =
     (case schemas of
        None \<Rightarrow> Inr []
      | Some entries \<Rightarrow>
          if entries = [] then Inr []
          else (case mapE (schemaDefinition pascal) entries of
                  Inl e \<Rightarrow> Inl e
                | Inr ds \<Rightarrow> Inr (join ds ''\<newline>\<newline>'' @ ''\<newline>'')))"

section \<open>Notions for the statements\<close>

text \<open>
  The operation that \<open>generateRestfulComponent\<close> goes on with after it has given a missing
  \<open>operationId\<close> the generated one; the list \<^verbatim>\<open>paramsInPath\<close> as a function of the verb and
  of the route; the \<open>(route, verb, operation)\<close> triples that the walk over the paths hands to
  \<open>generateRestfulComponent\<close>, in order, and the identifier under which each is registered.
\<close>

definition assignOperationId ::
  "(string \<Rightarrow> string \<Rightarrow> string) option \<Rightarrow> operation \<Rightarrow> string \<Rightarrow> string \<Rightarrow> operation" where
  "assignOperationId gen op verb route =
     (if truthy (operationId op) then op
      else case gen of None \<Rightarrow> op | Some g \<Rightarrow> op\<lparr>operationId := Some (g verb route)\<rparr>)"

definition pathParameterList :: "string \<Rightarrow> string \<Rightarrow> string list" where
  "pathParameterList verb route0 =
     (if verb = ''delete'' then
        (case lastParamInTheRouteRegExp (replaceBraces route0) of
           Some (before, name) \<Rightarrow> filter (\<lambda>p. p \<noteq> name) (getParamsInPath before)
         | None \<Rightarrow> getParamsInPath (replaceBraces route0))
      else getParamsInPath (replaceBraces route0))"

definition supportedOperations :: "(string \<times> pathItem) list \<Rightarrow> (string \<times> string \<times> operation) list" where
  "supportedOperations paths =
     concat (map (\<lambda>(route, verbs).
       map (\<lambda>(verb, operation). (route, verb, operation))
         (filter (\<lambda>(verb, operation). verb \<in> set [''get'', ''post'', ''patch'', ''put'', ''delete''])
            (item_entries verbs))) paths)"

definition assignedId :: "(string \<Rightarrow> string \<Rightarrow> string) option \<Rightarrow> string \<times> string \<times> operation \<Rightarrow> string" where
  "assignedId gen j = (case j of (route, verb, operation) \<Rightarrow>
     toStr (operationId (assignOperationId gen operation verb route)))"

section \<open>Example inputs\<close>

text \<open>
  \<^verbatim>\<open>pascal\<close> comes from the npm package \<^verbatim>\<open>case\<close>, which is not part of the repository:
  every function of the generator that calls it takes it as its first argument.
  The examples below instantiate it with \<open>pascalWords\<close>, which agrees with the package on
  lower-case and camel-case words joined by separators (\<^verbatim>\<open>pascal("get_pet") = "GetPet"\<close>,
  \<^verbatim>\<open>pascal("getPet") = "GetPet"\<close>, \<^verbatim>\<open>pascal("Pet") = "Pet"\<close>): the text is cut at every
  character that is not a letter or a digit, and the first letter of each piece is put in
  upper case.
\<close>

definition toUpperCase :: "char \<Rightarrow> char" where
  "toUpperCase c =
     (case map_of (zip ''abcdefghijklmnopqrstuvwxyz'' ''ABCDEFGHIJKLMNOPQRSTUVWXYZ'') c of
        Some u \<Rightarrow> u
      | None \<Rightarrow> c)"

definition isAlphaNum :: "char \<Rightarrow> bool" where
  "isAlphaNum c = (isWordChar c \<and> c \<noteq> CHR ''_'')"

fun pascalPieces :: "string \<Rightarrow> bool \<Rightarrow> string" where
  "pascalPieces [] up = []"
| "pascalPieces (c # cs) up =
     (if isAlphaNum c then (if up then toUpperCase c else c) # pascalPieces cs False
      else pascalPieces cs True)"

definition pascalWords :: "string \<Rightarrow> string" where
  "pascalWords s = pascalPieces s True"

text \<open>The object \<^verbatim>\<open>{}\<close>, and objects with one or two keys.\<close>

definition emptySchema :: schema where
  "emptySchema = Schema None None None None None None None None None None None False"

definition refSchema :: "string \<Rightarrow> schema" where
  "refSchema r = Schema (Some r) None None None None None None None None None None False"

definition typeSchema :: "string \<Rightarrow> schema" where
  "typeSchema t = Schema None (Some t) None None None None None None None None None False"

definition arraySchema :: "schema \<Rightarrow> schema" where
  "arraySchema its =
     Schema None (Some ''array'') None None (Some its) None None None None None None False"

definition oneOfSchema :: "schema list \<Rightarrow> schema" where
  "oneOfSchema xs = Schema None None None None None None None None None (Some xs) None False"

text \<open>Responses, parameters, operations and path items with the fields the examples need.\<close>

definition noContent :: resreq where
  "noContent = \<lparr> res_ref = None, content = None, res_description = Some ''done'' \<rparr>"

definition jsonResponse :: "schema \<Rightarrow> resreq" where
  "jsonResponse s = \<lparr> res_ref = None,
     content = Some [(''application/json'', \<lparr> media_schema = Some s \<rparr>)],
     res_description = None \<rparr>"

definition refResponse :: "string \<Rightarrow> resreq" where
  "refResponse r = \<lparr> res_ref = Some r, content = None, res_description = None \<rparr>"

definition pathParam :: "string \<Rightarrow> parameter" where
  "pathParam n = \<lparr> p_ref = None, p_name = Some n, p_in = Some ''path'', p_required = Some True,
     p_schema = Some (typeSchema ''string''), p_description = None \<rparr>"

definition simpleOperation :: "string \<Rightarrow> parameter list \<Rightarrow> (string \<times> resreq) list \<Rightarrow> operation" where
  "simpleOperation oid ps rs = \<lparr> operationId = Some oid, op_parameters = Some ps,
     requestBody = None, responses = rs, summary = None, op_description = None \<rparr>"

definition deletePet :: operation where
  "deletePet = simpleOperation ''deletePet'' [] [(''204'', noContent)]"



definition getPet :: "string \<Rightarrow> operation" where
  "getPet oid = simpleOperation oid [pathParam ''id'']
     [(''200'', jsonResponse (refSchema ''#/components/schemas/Pet''))]"


text \<open>
  A parameter given by reference, and components in which the same parameter object
  \<^verbatim>\<open>{name: "petId", in: "path", required: true, schema: {type: "string"}}\<close> is found under
  \<^verbatim>\<open>parameters\<close> and under \<^verbatim>\<open>schemas\<close>.
\<close>

definition noParameter :: parameter where
  "noParameter = \<lparr> p_ref = None, p_name = None, p_in = None, p_required = None,
     p_schema = None, p_description = None \<rparr>"

definition refParam :: "string \<Rightarrow> parameter" where
  "refParam r = noParameter\<lparr>p_ref := Some r\<rparr>"

definition leaf :: components where
  "leaf = Components noParameter []"

definition petIdNode :: components where
  "petIdNode = Components (pathParam ''petId'')
     [(''name'', leaf), (''in'', leaf), (''required'', leaf),
      (''schema'', Components noParameter [(''type'', leaf)])]"

definition petComponents :: components where
  "petComponents = Components noParameter
     [(''parameters'', Components noParameter [(''petId'', petIdNode)]),
      (''schemas'', Components noParameter [(''petId'', petIdNode)])]"

definition getPetByRef :: "string \<Rightarrow> operation" where
  "getPetByRef r = simpleOperation ''getPet'' [refParam r] [(''204'', noContent)]"

definition operationItem :: "string \<Rightarrow> operation \<Rightarrow> pathItem" where
  "operationItem verb operation = \<lparr> item_parameters = None, item_entries = [(verb, operation)] \<rparr>"

definition objectSchema :: "(string \<times> schema) list \<Rightarrow> schema" where
  "objectSchema ps =
     Schema None (Some ''object'') None None None (Some ps) None None None None None False"

definition petResponses :: operation where
  "petResponses = simpleOperation ''getPet'' [pathParam ''id'']
     [(''200'', jsonResponse (refSchema ''#/components/schemas/Pet'')),
      (''404'', refResponse ''#/components/responses/NotFound''),
      (''default'', noContent)]"

text \<open>
  A document whose schemas are given, a schema with a discriminator that maps \<open>dog\<close> to a
  pointer, and the schema the pointer names.
\<close>

definition obj :: "(string \<times> json) list \<Rightarrow> json" where
  "obj kvs = JObject False kvs"

definition arr :: "json list \<Rightarrow> json" where
  "arr vs = JObject True (map (\<lambda>i. (showNat i, vs ! i)) [0 ..< length vs])"

definition petDiscriminator :: "string \<Rightarrow> json" where
  "petDiscriminator r = obj [(''type'', JStr ''object''),
     (''discriminator'', obj [(''propertyName'', JStr ''petType''),
        (''mapping'', obj [(''dog'', JStr r)])])]"

definition dogSchema :: json where
  "dogSchema = obj [(''type'', JStr ''object''),
     (''properties'', obj [(''petType'', obj [(''type'', JStr ''string'')]),
                          (''bark'', obj [(''type'', JStr ''boolean'')])])]"

definition document :: "(string \<times> json) list \<Rightarrow> json" where
  "document schemas = obj [(''openapi'', JStr ''3.0.0''),
     (''components'', obj [(''schemas'', obj schemas)])]"

section \<open>Properties of the type resolver\<close>

lemma startsWith_append [simp]: "startsWith (p @ s) p"
  by (simp add: startsWith_def)

lemma replace_prefix [simp]: "replace (p @ s) p r = r @ s"
proof (cases "p @ s")
  case Nil
  then show ?thesis by simp
next
  case (Cons a list)
  have "startsWith (a # list) p" using startsWith_append[of p s] Cons by simp
  moreover have "drop (length p) (a # list) = s" using Cons[symmetric] by simp
  ultimately show ?thesis using Cons by simp
qed

lemmas resolver_simps = getScalar.simps(2) getArray.simps getObject.simps resolveValue.simps(2)
  isReference_def getRef_def startsWith_def Let_def

lemmas example_defs = emptySchema_def refSchema_def typeSchema_def arraySchema_def oneOfSchema_def
  pascalWords_def isAlphaNum_def isWordChar_def toUpperCase_def

lemma getScalar_array:
  "type item = Some ''array'' \<Longrightarrow>
   getScalar pascal (Some item) =
     (case getArray pascal item of
        Inl e \<Rightarrow> Inl e
      | Inr t \<Rightarrow> Inr (t @ (if nullable item = Some True then '' | null'' else [])))"
  by (simp add: getScalar.simps(2) Let_def)

subsection \<open>The reference resolver\<close>

text \<open>
  On a pointer that continues one of the four roots with a slash, \<open>getRef\<close> strips the root,
  puts the rest in Pascal case and appends the suffix of the kind; a pointer that starts with
  none of the four roots is refused.
\<close>

lemma getRef_schemas: "getRef pascal (''#/components/schemas/'' @ n) = Inr (pascal n)"
proof -
  have "startsWith (''#/components/schemas/'' @ n) ''#/components/schemas''"
    by (simp add: startsWith_def)
  then show ?thesis
    unfolding getRef_def by (simp only: replace_prefix if_True append_Nil)
qed

lemma getRef_responses:
  "getRef pascal (''#/components/responses/'' @ n) = Inr (pascal n @ ''Response'')"
proof -
  have "startsWith (''#/components/responses/'' @ n) ''#/components/responses''"
    "\<not> startsWith (''#/components/responses/'' @ n) ''#/components/schemas''"
    by (simp_all add: startsWith_def)
  then show ?thesis
    unfolding getRef_def by (simp only: replace_prefix if_True if_False append_Nil)
qed

lemma getRef_parameters:
  "getRef pascal (''#/components/parameters/'' @ n) = Inr (pascal n @ ''Parameter'')"
proof -
  have "startsWith (''#/components/parameters/'' @ n) ''#/components/parameters''"
    "\<not> startsWith (''#/components/parameters/'' @ n) ''#/components/schemas''"
    "\<not> startsWith (''#/components/parameters/'' @ n) ''#/components/responses''"
    by (simp_all add: startsWith_def)
  then show ?thesis
    unfolding getRef_def by (simp only: replace_prefix if_True if_False append_Nil)
qed

lemma getRef_requestBodies:
  "getRef pascal (''#/components/requestBodies/'' @ n) = Inr (pascal n @ ''RequestBody'')"
proof -
  have "startsWith (''#/components/requestBodies/'' @ n) ''#/components/requestBodies''"
    "\<not> startsWith (''#/components/requestBodies/'' @ n) ''#/components/schemas''"
    "\<not> startsWith (''#/components/requestBodies/'' @ n) ''#/components/responses''"
    "\<not> startsWith (''#/components/requestBodies/'' @ n) ''#/components/parameters''"
    by (simp_all add: startsWith_def)
  then show ?thesis
    unfolding getRef_def by (simp only: replace_prefix if_True if_False append_Nil)
qed

lemma getRef_unsupported:
  "\<not> startsWith r ''#/components/schemas'' \<Longrightarrow> \<not> startsWith r ''#/components/responses'' \<Longrightarrow>
   \<not> startsWith r ''#/components/parameters'' \<Longrightarrow> \<not> startsWith r ''#/components/requestBodies'' \<Longrightarrow>
   getRef pascal r = Inl UnsupportedRef"
  by (simp add: getRef_def)

text \<open>
  Claim C2.  The claim: \<open>getRef\<close> strips the prefix \<^verbatim>\<open>#/components/<kind>/\<close>, and throws on every
  pointer that is not rooted at one of the four kinds.  The test of \<open>getRef\<close> is
  \<^verbatim>\<open>startsWith("#/components/schemas")\<close>, without the closing slash that the replaced prefix
  has: the pointer \<^verbatim>\<open>#/components/schemasX/Foo\<close>, whose root \<^verbatim>\<open>schemasX\<close> is none of the four
  kinds, is not refused, nothing is stripped from it, and the whole pointer is handed to
  \<^verbatim>\<open>pascal\<close>.
\<close>

theorem getRef_unchecked_prefix:
  "getRef pascal ''#/components/schemasX/Foo'' = Inr (pascal ''#/components/schemasX/Foo'')"
  by (simp add: getRef_def startsWith_def)

subsection \<open>Arrays\<close>

text \<open>
  Claim C7.  When \<open>items\<close> is present and resolves to \<open>t\<close>, \<open>getArray\<close> returns \<open>(t)[]\<close> if
  \<open>items\<close> is an inline schema (not a reference) that carries \<open>oneOf\<close>, \<open>allOf\<close> or \<open>enum\<close>, and
  \<open>t[]\<close> for every other \<open>items\<close>.  An array whose \<open>items\<close> is \<open>{oneOf: [a, b]}\<close> resolves to
  \<open>(A | B)[]\<close>, where \<open>A\<close> and \<open>B\<close> are what \<open>a\<close> and \<open>b\<close> resolve to.
\<close>

theorem getArray_parentheses:
  "(items item = Some its \<and> resolveValue pascal (Some its) = Inr t \<longrightarrow>
      getArray pascal item =
        Inr (if \<not> isReference its \<and> (oneOf its \<noteq> None \<or> allOf its \<noteq> None \<or> enum its \<noteq> None)
             then ''('' @ t @ '')[]'' else t @ ''[]'')) \<and>
   (resolveValue pascal (Some a) = Inr ta \<and> resolveValue pascal (Some b) = Inr tb \<longrightarrow>
      getScalar pascal (Some (arraySchema (oneOfSchema [a, b]))) =
        Inr (''('' @ ta @ '' | '' @ tb @ '')[]''))"
proof -
  have wrap: "getArray pascal item =
        Inr (if \<not> isReference its \<and> (oneOf its \<noteq> None \<or> allOf its \<noteq> None \<or> enum its \<noteq> None)
             then ''('' @ t @ '')[]'' else t @ ''[]'')"
    if "items item = Some its" "resolveValue pascal (Some its) = Inr t" for item its t
    using that by (simp add: getArray.simps)
  have union: "resolveValue pascal (Some (oneOfSchema [a, b])) = Inr (ta @ '' | '' @ tb)"
    if "resolveValue pascal (Some a) = Inr ta" "resolveValue pascal (Some b) = Inr tb"
    using that
    by (simp add: oneOfSchema_def resolveValue.simps(2) getScalar.simps(2) getObject.simps
        isReference_def)
  have "getScalar pascal (Some (arraySchema (oneOfSchema [a, b]))) =
        Inr (''('' @ ta @ '' | '' @ tb @ '')[]'')"
    if "resolveValue pascal (Some a) = Inr ta" "resolveValue pascal (Some b) = Inr tb"
  proof -
    have "getArray pascal (arraySchema (oneOfSchema [a, b])) =
        Inr (''('' @ (ta @ '' | '' @ tb) @ '')[]'')"
      using wrap [of "arraySchema (oneOfSchema [a, b])" "oneOfSchema [a, b]", OF _ union [OF that]]
      by (simp add: arraySchema_def oneOfSchema_def isReference_def)
    then show ?thesis
      by (simp add: getScalar_array arraySchema_def)
  qed
  with wrap show ?thesis by blast
qed

theorem getArray_parentheses_witness:
  "getScalar pascalWords (Some (arraySchema (oneOfSchema
      [refSchema ''#/components/schemas/A'', refSchema ''#/components/schemas/B'']))) =
     Inr ''(A | B)[]'' \<and>
   getArray pascalWords (arraySchema (refSchema ''#/components/schemas/A'')) = Inr ''A[]'' \<and>
   getArray pascalWords (arraySchema (typeSchema ''string'')) = Inr ''string[]''"
proof -
  have a: "resolveValue pascalWords (Some (refSchema ''#/components/schemas/A'')) = Inr ''A''"
    by (simp add: resolver_simps example_defs)
  have b: "resolveValue pascalWords (Some (refSchema ''#/components/schemas/B'')) = Inr ''B''"
    by (simp add: resolver_simps example_defs)
  have s: "resolveValue pascalWords (Some (typeSchema ''string'')) = Inr ''string''"
    by (simp add: resolver_simps example_defs)
  have i1: "items (arraySchema (refSchema ''#/components/schemas/A'')) =
      Some (refSchema ''#/components/schemas/A'')"
    by (simp add: arraySchema_def)
  have i2: "items (arraySchema (typeSchema ''string'')) = Some (typeSchema ''string'')"
    by (simp add: arraySchema_def)
  show ?thesis
    using getArray_parentheses [of "arraySchema (refSchema ''#/components/schemas/A'')"
        "refSchema ''#/components/schemas/A''" pascalWords "''A''"
        "refSchema ''#/components/schemas/A''" "''A''" "refSchema ''#/components/schemas/B''" "''B''"]
      getArray_parentheses [of "arraySchema (typeSchema ''string'')"
        "typeSchema ''string''" pascalWords "''string''"
        "refSchema ''#/components/schemas/A''" "''A''" "refSchema ''#/components/schemas/B''" "''B''"]
      a b s i1 i2
    by (simp add: refSchema_def typeSchema_def isReference_def)
qed

text \<open>
  Claim C9.  A schema without \<open>items\<close> makes \<open>getArray\<close> throw, and so \<open>getScalar\<close> when the
  type of the schema is \<open>array\<close>.  When \<open>items\<close> is present, \<open>getArray\<close> (and \<open>getScalar\<close> on
  an array) throws exactly the errors that resolving \<open>items\<close> throws: no error is raised for
  the array itself.
\<close>

theorem getArray_items:
  "(items item = None \<longrightarrow>
      getArray pascal item = Inl ArrayWithoutItems \<and>
      (type item = Some ''array'' \<longrightarrow> getScalar pascal (Some item) = Inl ArrayWithoutItems)) \<and>
   (\<forall>its. items item = Some its \<longrightarrow>
      (\<forall>e. getArray pascal item = Inl e \<longleftrightarrow> resolveValue pascal (Some its) = Inl e) \<and>
      (type item = Some ''array'' \<longrightarrow>
         (\<forall>e. getScalar pascal (Some item) = Inl e \<longleftrightarrow> resolveValue pascal (Some its) = Inl e)))"
proof -
  have none: "getArray pascal item = Inl ArrayWithoutItems" if "items item = None"
    using that by (simp add: getArray.simps)
  have some: "getArray pascal item = Inl e \<longleftrightarrow> resolveValue pascal (Some its) = Inl e"
    if "items item = Some its" for its e
    using that by (simp add: getArray.simps split: sum.splits)
  have scalar: "getScalar pascal (Some item) = Inl e \<longleftrightarrow> getArray pascal item = Inl e"
    if "type item = Some ''array''" for e
    using that by (simp add: getScalar_array split: sum.splits)
  show ?thesis
    using none some scalar by simp
qed

theorem getArray_items_witness:
  "getScalar pascalWords (Some (typeSchema ''array'')) = Inl ArrayWithoutItems \<and>
   getArray pascalWords (typeSchema ''array'') = Inl ArrayWithoutItems \<and>
   getScalar pascalWords (Some (arraySchema (typeSchema ''string''))) = Inr ''string[]'' \<and>
   getScalar pascalWords (Some (arraySchema (typeSchema ''array''))) = Inl ArrayWithoutItems"
  using getArray_items [of "typeSchema ''array''" pascalWords]
    getArray_items [of "arraySchema (typeSchema ''string'')" pascalWords]
    getArray_items [of "arraySchema (typeSchema ''array'')" pascalWords]
  by (simp add: resolver_simps example_defs)

subsection \<open>A missing schema\<close>

text \<open>
  Claim C10.  On \<^verbatim>\<open>null\<close> or \<^verbatim>\<open>undefined\<close>, \<open>getScalar\<close> returns the empty string: not
  \<open>any\<close>, not \<open>void\<close>, and no error.  \<open>resolveValue\<close>, which hands a missing schema to
  \<open>getScalar\<close>, returns the empty string too.
\<close>

theorem getScalar_undefined:
  "getScalar pascal None = Inr [] \<and> resolveValue pascal None = Inr []"
  by simp

section \<open>Properties of the routes\<close>

lemma isWordChar_special [simp]:
  "\<not> isWordChar (CHR ''{'')" "\<not> isWordChar (CHR ''}'')" "\<not> isWordChar (CHR ''$'')"
  "\<not> isWordChar (CHR ''/'')"
  by (simp_all add: isWordChar_def)









lemma getParamsInPath_dollar: "getParamsInPath (CHR ''$'' # s) = getParamsInPath s"
  by simp






section \<open>Properties of the operation synthesizer\<close>

lemma bind_Inr_iff:
  "(case m of Inl e \<Rightarrow> Inl e | Inr v \<Rightarrow> f v) = Inr r \<longleftrightarrow> (\<exists>v. m = Inr v \<and> f v = Inr r)"
  by (cases m) auto

lemma if_Inl_Inr_iff: "(if b then Inl e else z) = Inr r \<longleftrightarrow> (\<not> b \<and> z = Inr r)"
  by simp



lemma mapE_Inl_some: "mapE f xs = Inl e \<Longrightarrow> \<exists>x \<in> set xs. f x = Inl e"
  by (induction xs) (auto split: sum.splits)

lemma mapE_only:
  "p \<in> set xs \<Longrightarrow> f p = Inl e \<Longrightarrow> (\<forall>q \<in> set xs. q \<noteq> p \<longrightarrow> (\<exists>t. f q = Inr t)) \<Longrightarrow> mapE f xs = Inl e"
proof (induction xs)
  case Nil
  then show ?case by simp
next
  case (Cons x xs)
  show ?case
  proof (cases "x = p")
    case True
    then show ?thesis using Cons.prems by simp
  next
    case False
    then obtain t where "f x = Inr t" using Cons.prems by auto
    moreover have "mapE f xs = Inl e" using Cons False by auto
    ultimately show ?thesis by simp
  qed
qed




lemma paramsType_Inl:
  "paramsType pascal pathParams oid p = Inl e \<Longrightarrow> e = PathParamNotFound p oid"
  by (auto simp: paramsType_def split: option.splits sum.splits)



lemma stage1_Inr_iff:
  "(if truthy (operationId op) then Inr op
    else case gen of None \<Rightarrow> Inl e | Some g \<Rightarrow> Inr (op\<lparr>operationId := Some (g verb route)\<rparr>)) = Inr v
   \<longleftrightarrow> (truthy (operationId op) \<or> gen \<noteq> None) \<and> v = assignOperationId gen op verb route"
  by (auto simp: assignOperationId_def split: option.splits)

lemma op_parameters_assign [simp]:
  "op_parameters (assignOperationId gen op verb route) = op_parameters op"
  by (simp add: assignOperationId_def split: option.splits)

lemma mergedParameters_assign [simp]:
  "mergedParameters comps params (assignOperationId gen op verb route) = mergedParameters comps params op"
  by (simp add: mergedParameters_def)

lemma generateRestfulComponent_Inr:
  assumes "generateRestfulComponent pascal gen op verb route0 ids params comps = Inr (out, c, ids')"
  shows "c_operation c = assignOperationId gen op verb route0"
    and "toStr (operationId (c_operation c)) \<notin> set ids"
    and "ids' = ids @ [toStr (operationId (c_operation c))]"
    and "\<exists>pts. mapE (paramsType pascal (groupIn ''path'' (mergedParameters comps params op))
            (toStr (operationId (c_operation c)))) (c_paramsInPath c) = Inr pts"
    and "truthy (operationId op) \<or> gen \<noteq> None"
    and "componentName c = pascal (toStr (operationId (c_operation c)))"
  using assms unfolding generateRestfulComponent_def Let_def
  by (auto simp: bind_Inr_iff if_Inl_Inr_iff stage1_Inr_iff)

lemma pathParameterList_eq:
  "pathParameterList verb route0 =
     filter (\<lambda>param. \<not> (verb = ''delete'' \<and>
                     Some param = map_option snd (lastParamInTheRouteRegExp (replaceBraces route0))))
       (getParamsInPath (if verb = ''delete''
            then (case lastParamInTheRouteRegExp (replaceBraces route0) of
                    Some (before, _) \<Rightarrow> before
                  | None \<Rightarrow> replaceBraces route0)
            else replaceBraces route0))"
  by (auto simp: pathParameterList_def split: option.splits)

lemma assign_fields [simp]:
  "responses (assignOperationId gen op verb route) = responses op"
  "requestBody (assignOperationId gen op verb route) = requestBody op"
  by (simp_all add: assignOperationId_def split: option.splits)

lemma types_assign [simp]:
  "responseTypes pascal (assignOperationId gen op verb route) = responseTypes pascal op"
  "errorTypes pascal (assignOperationId gen op verb route) = errorTypes pascal op"
  "requestBodyTypes pascal (assignOperationId gen op verb route) = requestBodyTypes pascal op"
  by (simp_all add: responseTypes_def errorTypes_def requestBodyTypes_def responseEntries_def)






subsection \<open>The last placeholder of a DELETE route\<close>




subsection \<open>Parameters given by reference\<close>

text \<open>
  A reference to a parameter is followed under \<^verbatim>\<open>components.parameters\<close> and anywhere else
  under \<^verbatim>\<open>components\<close>; a pointer that leads nowhere, or the absence of components, gives
  \<^verbatim>\<open>undefined\<close>, which no group of parameters contains.
\<close>

lemma getParameter_example:
  "getParameter (Some petComponents) ''#/components/parameters/petId'' = Some (pathParam ''petId'') \<and>
   getParameter (Some petComponents) ''#/components/schemas/petId'' = Some (pathParam ''petId'') \<and>
   getParameter (Some petComponents) ''#/components/parameters/id'' = None \<and>
   getParameter (Some petComponents) ''#/components/parameters/petId/schema'' = None \<and>
   getParameter (Some petComponents) ''#/components/parameters.petId.schema'' = Some noParameter \<and>
   getParameter None ''#/components/parameters/petId'' = None"
  by code_simp

lemma generateRestfulComponent_reference:
  "map_sum id (\<lambda>(out, c, ids). (c_paramsInPath c, c_paramsTypes c))
     (generateRestfulComponent pascalWords None (getPetByRef ''#/components/schemas/petId'')
        ''get'' ''/pet/{petId}'' [] [] (Some petComponents)) =
     Inr ([''petId''], ''petId: string'') \<and>
   generateRestfulComponent pascalWords None (getPetByRef ''#/components/parameters/id'')
        ''get'' ''/pet/{petId}'' [] [] (Some petComponents) =
     Inl (PathParamNotFound ''petId'' ''getPet'')"
  by code_simp

subsection \<open>Placeholders need a path parameter\<close>




subsection \<open>Duplicated operation identifiers\<close>

lemma importOpenApi_verbs_ids:
  "importOpenApi_verbs pascal gen comps route params es st = Inr st' \<Longrightarrow>
   snd (snd st') = snd (snd st) @
     map (assignedId gen) (map (\<lambda>(verb, operation). (route, verb, operation))
       (filter (\<lambda>(verb, operation). verb \<in> set [''get'', ''post'', ''patch'', ''put'', ''delete'']) es)) \<and>
   (distinct (snd (snd st)) \<longrightarrow> distinct (snd (snd st')))"
proof (induction pascal gen comps route params es st rule: importOpenApi_verbs.induct)
  case (1 pascal gen comps route params st)
  then show ?case by simp
next
  case (2 pascal gen comps route params verb operation rest outp cs operationIds)
  show ?case
  proof (cases "verb \<in> set [''get'', ''post'', ''patch'', ''put'', ''delete'']")
    case True
    from "2.prems" True obtain componentOutput c operationIds' where
      g: "generateRestfulComponent pascal gen operation verb route operationIds
            (case params of None \<Rightarrow> [] | Some ps \<Rightarrow> ps) comps = Inr (componentOutput, c, operationIds')"
      and r: "importOpenApi_verbs pascal gen comps route params rest
            (outp @ componentOutput, cs @ [c], operationIds') = Inr st'"
      by (auto split: sum.splits)
    let ?S = "\<lambda>es. map (assignedId gen) (map (\<lambda>(verb, operation). (route, verb, operation))
       (filter (\<lambda>(verb, operation). verb \<in> set [''get'', ''post'', ''patch'', ''put'', ''delete'']) es))"
    from "2.IH"(1) [OF True g refl refl r, unfolded snd_conv]
    have a: "snd (snd st') = operationIds' @ ?S rest"
      and b: "distinct operationIds' \<longrightarrow> distinct (snd (snd st'))" by blast+
    have i: "operationIds' = operationIds @ [assignedId gen (route, verb, operation)]"
      "assignedId gen (route, verb, operation) \<notin> set operationIds"
      using generateRestfulComponent_Inr(1,2,3) [OF g] by (simp_all add: assignedId_def)
    have step: "?S ((verb, operation) # rest) = assignedId gen (route, verb, operation) # ?S rest"
      using True by simp
    have "snd (snd st') = operationIds @ ?S ((verb, operation) # rest)"
      unfolding step a i(1) by simp
    moreover have "distinct operationIds \<longrightarrow> distinct (snd (snd st'))"
      using b i by simp
    ultimately show ?thesis by simp
  next
    case False
    with "2.prems" have "importOpenApi_verbs pascal gen comps route params rest (outp, cs, operationIds) = Inr st'"
      by simp
    from "2.IH"(2) [OF False this, unfolded snd_conv]
    have a: "snd (snd st') = operationIds @
        map (assignedId gen) (map (\<lambda>(verb, operation). (route, verb, operation))
          (filter (\<lambda>(verb, operation). verb \<in> set [''get'', ''post'', ''patch'', ''put'', ''delete'']) rest))"
      and b: "distinct operationIds \<longrightarrow> distinct (snd (snd st'))" by blast+
    have "filter (\<lambda>(verb, operation). verb \<in> set [''get'', ''post'', ''patch'', ''put'', ''delete''])
        ((verb, operation) # rest) =
      filter (\<lambda>(verb, operation). verb \<in> set [''get'', ''post'', ''patch'', ''put'', ''delete'']) rest"
      using False by simp
    with a b show ?thesis by (simp only: snd_conv)
  qed
qed

lemma importOpenApi_paths_ids:
  "importOpenApi_paths pascal gen comps paths st = Inr st' \<Longrightarrow>
   snd (snd st') = snd (snd st) @ map (assignedId gen) (supportedOperations paths) \<and>
   (distinct (snd (snd st)) \<longrightarrow> distinct (snd (snd st')))"
proof (induction pascal gen comps paths st rule: importOpenApi_paths.induct)
  case (1 pascal gen comps st)
  then show ?case by (simp add: supportedOperations_def)
next
  case (2 pascal gen comps route verbs rest st)
  from "2.prems" obtain st1 where
    v: "importOpenApi_verbs pascal gen comps route (item_parameters verbs) (item_entries verbs) st = Inr st1"
    and r: "importOpenApi_paths pascal gen comps rest st1 = Inr st'"
    by (auto split: sum.splits)
  let ?here = "map (\<lambda>(verb, operation). (route, verb, operation))
       (filter (\<lambda>(verb, operation). verb \<in> set [''get'', ''post'', ''patch'', ''put'', ''delete''])
          (item_entries verbs))"
  have so: "supportedOperations ((route, verbs) # rest) = ?here @ supportedOperations rest"
    by (simp add: supportedOperations_def)
  from importOpenApi_verbs_ids [OF v]
  have a: "snd (snd st1) = snd (snd st) @ map (assignedId gen) ?here"
    and b: "distinct (snd (snd st)) \<longrightarrow> distinct (snd (snd st1))" by blast+
  from "2.IH" [OF v r]
  have c: "snd (snd st') = snd (snd st1) @ map (assignedId gen) (supportedOperations rest)"
    and d: "distinct (snd (snd st1)) \<longrightarrow> distinct (snd (snd st'))" by blast+
  have "snd (snd st') = snd (snd st) @ map (assignedId gen) (supportedOperations ((route, verbs) # rest))"
    unfolding so c a by simp
  with b d show ?case by blast
qed

lemma assignedId_explicit:
  "truthy (operationId operation) \<Longrightarrow> assignedId gen (route, verb, operation) = toStr (operationId operation)"
  by (simp add: assignedId_def assignOperationId_def)

lemma importOpenApi_paths_distinct:
  assumes "importOpenApi_paths pascal gen comps paths ([], [], []) = Inr (out, cs, ids)"
  shows "distinct (map (\<lambda>(route, verb, operation). toStr (operationId operation))
           (filter (\<lambda>(route, verb, operation). truthy (operationId operation)) (supportedOperations paths)))"
proof -
  from importOpenApi_paths_ids [OF assms]
  have "distinct (map (assignedId gen) (supportedOperations paths))" by auto
  then have "distinct (map (assignedId gen)
      (filter (\<lambda>(route, verb, operation). truthy (operationId operation)) (supportedOperations paths)))"
    by (rule distinct_map_filter)
  moreover have "map (assignedId gen)
      (filter (\<lambda>(route, verb, operation). truthy (operationId operation)) (supportedOperations paths)) =
    map (\<lambda>(route, verb, operation). toStr (operationId operation))
      (filter (\<lambda>(route, verb, operation). truthy (operationId operation)) (supportedOperations paths))"
    by (rule map_cong) (auto simp: assignedId_explicit)
  ultimately show ?thesis by simp
qed

lemma generateRestfulComponent_duplicate:
  assumes "truthy (operationId op)" "toStr (operationId op) \<in> set ids"
  shows "generateRestfulComponent pascal gen op verb route ids params comps =
    Inl (DuplicatedOperationId (toStr (operationId op)))"
  using assms unfolding generateRestfulComponent_def by simp

text \<open>
  Claim C3, as amended.  \<open>generateRestfulComponent\<close> compares the identifiers as they are
  written, before \<^verbatim>\<open>pascal\<close> is applied.  When an operation has been synthesized, synthesizing
  afterwards (on a list that still holds the registered identifiers) an operation whose
  \<open>operationId\<close> is the same string fails with the duplication error; and a walk over the paths
  that returns has met no two operations with the same \<open>operationId\<close>, so a document with such
  a pair produces no output.
\<close>

theorem duplicate_operationId:
  "(generateRestfulComponent pascal gen1 op1 verb1 route1 ids params1 comps1 = Inr (out1, c1, ids1) \<and>
    set ids1 \<subseteq> set ids2 \<and> truthy (operationId op2) \<and> operationId op2 = operationId (c_operation c1) \<longrightarrow>
      generateRestfulComponent pascal gen2 op2 verb2 route2 ids2 params2 comps2 =
        Inl (DuplicatedOperationId (toStr (operationId op2)))) \<and>
   (importOpenApi_paths pascal gen comps paths ([], [], []) = Inr (out, cs, ids') \<longrightarrow>
      distinct (map (\<lambda>(route, verb, operation). toStr (operationId operation))
        (filter (\<lambda>(route, verb, operation). truthy (operationId operation))
           (supportedOperations paths))))"
proof -
  have "generateRestfulComponent pascal gen2 op2 verb2 route2 ids2 params2 comps2 =
        Inl (DuplicatedOperationId (toStr (operationId op2)))"
    if g: "generateRestfulComponent pascal gen1 op1 verb1 route1 ids params1 comps1 = Inr (out1, c1, ids1)"
      and s: "set ids1 \<subseteq> set ids2" and t: "truthy (operationId op2)"
      and e: "operationId op2 = operationId (c_operation c1)"
  proof -
    from generateRestfulComponent_Inr(3) [OF g] e have "toStr (operationId op2) \<in> set ids1" by simp
    with s have "toStr (operationId op2) \<in> set ids2" by blast
    with t show ?thesis by (rule generateRestfulComponent_duplicate)
  qed
  with importOpenApi_paths_distinct show ?thesis by blast
qed

theorem duplicate_operationId_witness:
  "map_sum id (\<lambda>(out, c, ids). ids)
     (generateRestfulComponent pascalWords None (getPet ''getPet'') ''get'' ''/pet/{id}'' [] [] None) =
     Inr [''getPet''] \<and>
   generateRestfulComponent pascalWords None (getPet ''getPet'') ''put'' ''/pet/{id}'' [''getPet''] [] None =
     Inl (DuplicatedOperationId ''getPet'') \<and>
   isl (importOpenApi_paths pascalWords None None
     [(''/pet/{id}'', operationItem ''get'' (getPet ''getPet'')),
      (''/pets/{id}'', operationItem ''put'' (getPet ''getPet''))] ([], [], []))"
proof -
  let ?r1 = "generateRestfulComponent pascalWords None (getPet ''getPet'') ''get'' ''/pet/{id}'' [] [] None"
  let ?paths = "[(''/pet/{id}'', operationItem ''get'' (getPet ''getPet'')),
      (''/pets/{id}'', operationItem ''put'' (getPet ''getPet''))]"
  have "\<not> isl ?r1" by code_simp
  then obtain out1 c1 ids1 where r1: "?r1 = Inr (out1, c1, ids1)" by (cases ?r1) auto
  have o: "c_operation c1 = getPet ''getPet''" "ids1 = [''getPet'']"
    using generateRestfulComponent_Inr(1,3) [OF r1] by (simp_all add: assignOperationId_def getPet_def simpleOperation_def)
  have t: "truthy (operationId (getPet ''getPet''))" "toStr (operationId (getPet ''getPet'')) = ''getPet''"
    by code_simp+
  from duplicate_operationId [of pascalWords None "getPet ''getPet''" "''get''" "''/pet/{id}''" "[]" "[]" None
      out1 c1 ids1 "[''getPet'']" "getPet ''getPet''" None "''put''" "''/pet/{id}''" "[]" None] r1 o t
  have d: "generateRestfulComponent pascalWords None (getPet ''getPet'') ''put'' ''/pet/{id}'' [''getPet''] [] None =
     Inl (DuplicatedOperationId ''getPet'')" by simp
  have "\<not> distinct (map (\<lambda>(route, verb, operation). toStr (operationId operation))
        (filter (\<lambda>(route, verb, operation). truthy (operationId operation))
           (supportedOperations ?paths)))" by code_simp
  with duplicate_operationId [of pascalWords None "getPet ''getPet''" "''get''" "''/pet/{id}''" "[]" "[]" None
      out1 c1 ids1 "[''getPet'']" "getPet ''getPet''" None "''put''" "''/pet/{id}''" "[]" None
      None None ?paths]
  have "\<not> (\<exists>r. importOpenApi_paths pascalWords None None ?paths ([], [], []) = Inr r)"
    by (metis prod_cases3)
  then have "isl (importOpenApi_paths pascalWords None None ?paths ([], [], []))"
    by (cases "importOpenApi_paths pascalWords None None ?paths ([], [], [])") auto
  with d o show ?thesis by (simp add: r1)
qed

text \<open>
  Claim C3, as stated, fails: \<^verbatim>\<open>getPet\<close> and \<^verbatim>\<open>get_pet\<close> are equal after \<^verbatim>\<open>pascal\<close>, and the
  second is synthesized after the first without an error; the walk over a document with the
  two operations returns two components named \<^verbatim>\<open>GetPet\<close>.
\<close>

theorem pascal_equal_ids_accepted:
  "pascalWords ''getPet'' = pascalWords ''get_pet'' \<and>
   map_sum id (\<lambda>(out, c, ids). (componentName c, ids))
     (generateRestfulComponent pascalWords None (getPet ''getPet'') ''get'' ''/pet/{id}'' [] [] None) =
     Inr (''GetPet'', [''getPet'']) \<and>
   map_sum id (\<lambda>(out, c, ids). (componentName c, ids))
     (generateRestfulComponent pascalWords None (getPet ''get_pet'') ''put'' ''/pet/{id}''
        [''getPet''] [] None) =
     Inr (''GetPet'', [''getPet'', ''get_pet'']) \<and>
   map_sum id (\<lambda>(out, cs, ids). (map componentName cs, ids))
     (importOpenApi_paths pascalWords None None
        [(''/pet/{id}'', operationItem ''get'' (getPet ''getPet'')),
         (''/pets/{id}'', operationItem ''put'' (getPet ''get_pet''))] ([], [], [])) =
     Inr ([''GetPet'', ''GetPet''], [''getPet'', ''get_pet''])"
  by code_simp

section \<open>Properties of the response types\<close>

lemma uniq_acc_set: "set (uniq_acc seen xs) = set xs - set seen"
  by (induction xs arbitrary: seen) auto

lemma uniq_acc_distinct: "distinct (uniq_acc seen xs)"
  by (induction xs arbitrary: seen) (auto simp: uniq_acc_set)

lemma uniq_distinct: "distinct (uniq xs) \<and> set (uniq xs) = set xs"
  by (simp add: uniq_def uniq_acc_set uniq_acc_distinct)

lemma findContent_find:
  "findContent c =
     map_option snd (find (\<lambda>(contentType, m). startsWith contentType ''application/json'' \<or>
        startsWith contentType ''application/octet-stream'') c)"
  by (induction c rule: findContent.induct) auto

lemma filter_isOk_empty:
  "\<forall>(statusCode, res) \<in> set (responses operation). \<not> startsWith statusCode ''2'' \<Longrightarrow>
   filter isOk (responseEntries operation) = []"
  by (auto simp: responseEntries_def isOk_def filter_empty_conv)

lemma filter_isError_empty:
  "\<forall>(statusCode, res) \<in> set (responses operation).
      \<not> startsWith statusCode ''4'' \<and> \<not> startsWith statusCode ''5'' \<and> statusCode \<noteq> ''default'' \<Longrightarrow>
   filter isError (responseEntries operation) = []"
  by (auto simp: responseEntries_def isError_def filter_empty_conv)

text \<open>
  Claim C1, as amended.  The success group of an operation holds the entries of its
  \<^verbatim>\<open>responses\<close> whose key starts with \<^verbatim>\<open>2\<close>, the error group those whose key starts with
  \<^verbatim>\<open>4\<close> or \<^verbatim>\<open>5\<close> or is \<^verbatim>\<open>default\<close>.  The types of the members of a group are resolved in order
  (the first error ends the resolution), deduplicated and joined with \<^verbatim>\<open> | \<close>; an empty
  result is replaced by \<open>void\<close> for the success group and by \<open>unknown\<close> for the error group,
  so a group without members yields \<open>void\<close> or \<open>unknown\<close>.  A member that is a reference
  resolves to what \<open>getRef\<close> gives for its pointer, whatever its content; any other member
  resolves to the schema of its first content entry whose type starts with
  \<^verbatim>\<open>application/json\<close> or \<^verbatim>\<open>application/octet-stream\<close>, and to \<open>void\<close> when it has no content
  or no such entry.
\<close>

theorem response_types:
  "responseTypes pascal operation =
     (case mapE (getResReqType pascal)
             (filter (\<lambda>(statusCode, res). startsWith statusCode ''2'') (responseEntries operation)) of
        Inl e \<Rightarrow> Inl e
      | Inr ts \<Rightarrow> Inr (if join (uniq ts) '' | '' = [] then ''void'' else join (uniq ts) '' | '')) \<and>
   errorTypes pascal operation =
     (case mapE (getResReqType pascal)
             (filter (\<lambda>(statusCode, res). startsWith statusCode ''4'' \<or> startsWith statusCode ''5'' \<or>
                        statusCode = ''default'') (responseEntries operation)) of
        Inl e \<Rightarrow> Inl e
      | Inr ts \<Rightarrow> Inr (if join (uniq ts) '' | '' = [] then ''unknown'' else join (uniq ts) '' | '')) \<and>
   (\<forall>ts. distinct (uniq ts) \<and> set (uniq ts) = set (ts :: string list)) \<and>
   (truthy (res_ref res) \<longrightarrow>
      getResReqType pascal (statusCode, Some res) = getRef pascal (the (res_ref res))) \<and>
   (\<not> truthy (res_ref res) \<longrightarrow>
      getResReqType pascal (statusCode, Some res) =
        (case content res of
           None \<Rightarrow> Inr ''void''
         | Some c \<Rightarrow>
             (case find (\<lambda>(contentType, m). startsWith contentType ''application/json'' \<or>
                       startsWith contentType ''application/octet-stream'') c of
                None \<Rightarrow> Inr ''void''
              | Some (contentType, m) \<Rightarrow> resolveValue pascal (media_schema m)))) \<and>
   ((\<forall>(statusCode, res) \<in> set (responses operation). \<not> startsWith statusCode ''2'') \<longrightarrow>
      responseTypes pascal operation = Inr ''void'') \<and>
   ((\<forall>(statusCode, res) \<in> set (responses operation).
        \<not> startsWith statusCode ''4'' \<and> \<not> startsWith statusCode ''5'' \<and> statusCode \<noteq> ''default'') \<longrightarrow>
      errorTypes pascal operation = Inr ''unknown'')"
proof -
  have ok: "isOk = (\<lambda>(statusCode, res). startsWith statusCode ''2'')"
    by (auto simp: isOk_def fun_eq_iff)
  have err: "isError = (\<lambda>(statusCode, res). startsWith statusCode ''4'' \<or> startsWith statusCode ''5'' \<or>
                        statusCode = ''default'')"
    by (auto simp: isError_def fun_eq_iff)
  have r: "responseTypes pascal operation =
     (case mapE (getResReqType pascal)
             (filter (\<lambda>(statusCode, res). startsWith statusCode ''2'') (responseEntries operation)) of
        Inl e \<Rightarrow> Inl e
      | Inr ts \<Rightarrow> Inr (if join (uniq ts) '' | '' = [] then ''void'' else join (uniq ts) '' | ''))"
    unfolding responseTypes_def getResReqTypes_def orElse_def ok by (simp split: sum.splits)
  have e: "errorTypes pascal operation =
     (case mapE (getResReqType pascal)
             (filter (\<lambda>(statusCode, res). startsWith statusCode ''4'' \<or> startsWith statusCode ''5'' \<or>
                        statusCode = ''default'') (responseEntries operation)) of
        Inl e \<Rightarrow> Inl e
      | Inr ts \<Rightarrow> Inr (if join (uniq ts) '' | '' = [] then ''unknown'' else join (uniq ts) '' | ''))"
    unfolding errorTypes_def getResReqTypes_def orElse_def err by (simp split: sum.splits)
  have m1: "getResReqType pascal (statusCode, Some res) = getRef pascal (the (res_ref res))"
    if "truthy (res_ref res)" using that by simp
  have m2: "getResReqType pascal (statusCode, Some res) =
        (case content res of
           None \<Rightarrow> Inr ''void''
         | Some c \<Rightarrow>
             (case find (\<lambda>(contentType, m). startsWith contentType ''application/json'' \<or>
                       startsWith contentType ''application/octet-stream'') c of
                None \<Rightarrow> Inr ''void''
              | Some (contentType, m) \<Rightarrow> resolveValue pascal (media_schema m)))"
    if "\<not> truthy (res_ref res)"
    using that by (auto simp: findContent_find split: option.splits)
  have v: "responseTypes pascal operation = Inr ''void''"
    if "\<forall>(statusCode, res) \<in> set (responses operation). \<not> startsWith statusCode ''2''"
    using filter_isOk_empty [OF that]
    by (simp add: responseTypes_def getResReqTypes_def orElse_def uniq_def)
  have u: "errorTypes pascal operation = Inr ''unknown''"
    if "\<forall>(statusCode, res) \<in> set (responses operation).
        \<not> startsWith statusCode ''4'' \<and> \<not> startsWith statusCode ''5'' \<and> statusCode \<noteq> ''default''"
    using filter_isError_empty [OF that]
    by (simp add: errorTypes_def getResReqTypes_def orElse_def uniq_def)
  show ?thesis
    using r e m1 m2 v u uniq_distinct by blast
qed

theorem response_types_witness:
  "responseTypes pascalWords petResponses = Inr ''Pet'' \<and>
   errorTypes pascalWords petResponses = Inr ''NotFoundResponse | void'' \<and>
   getResReqType pascalWords (''404'', Some (refResponse ''#/components/responses/NotFound'')) =
     Inr ''NotFoundResponse'' \<and>
   getResReqType pascalWords (''default'', Some noContent) = Inr ''void'' \<and>
   responseTypes pascalWords deletePet = Inr ''void'' \<and>
   errorTypes pascalWords deletePet = Inr ''unknown'' \<and>
   responseTypes pascalWords (simpleOperation ''ping'' [] []) = Inr ''void''"
proof -
  have h1: "truthy (res_ref (refResponse ''#/components/responses/NotFound''))"
    and h2: "\<not> truthy (res_ref noContent)"
    and h3: "\<forall>(statusCode, res) \<in> set (responses (simpleOperation ''ping'' [] [])).
               \<not> startsWith statusCode ''2''"
    and h4: "\<forall>(statusCode, res) \<in> set (responses deletePet).
        \<not> startsWith statusCode ''4'' \<and> \<not> startsWith statusCode ''5'' \<and> statusCode \<noteq> ''default''"
    by (simp_all add: refResponse_def noContent_def simpleOperation_def deletePet_def startsWith_def)
  have e: "getRef pascalWords (the (res_ref (refResponse ''#/components/responses/NotFound''))) =
      Inr ''NotFoundResponse''" "content noContent = None"
    "responseTypes pascalWords petResponses = Inr ''Pet''"
    "errorTypes pascalWords petResponses = Inr ''NotFoundResponse | void''"
    "responseTypes pascalWords deletePet = Inr ''void''"
    by code_simp+
  from response_types [of pascalWords "simpleOperation ''ping'' [] []"
      "refResponse ''#/components/responses/NotFound''" "''404''"] h1 h3
  have a: "getResReqType pascalWords (''404'', Some (refResponse ''#/components/responses/NotFound'')) =
     Inr ''NotFoundResponse''"
    and b: "responseTypes pascalWords (simpleOperation ''ping'' [] []) = Inr ''void''"
    unfolding e [symmetric] by blast+
  from response_types [of pascalWords deletePet noContent "''default''"] h2 h4
  have c0: "getResReqType pascalWords (''default'', Some noContent) =
        (case content noContent of
           None \<Rightarrow> Inr ''void''
         | Some c \<Rightarrow>
             (case find (\<lambda>(contentType, m). startsWith contentType ''application/json'' \<or>
                       startsWith contentType ''application/octet-stream'') c of
                None \<Rightarrow> Inr ''void''
              | Some (contentType, m) \<Rightarrow> resolveValue pascalWords (media_schema m)))"
    and d: "errorTypes pascalWords deletePet = Inr ''unknown''"
    by blast+
  from c0 have c: "getResReqType pascalWords (''default'', Some noContent) = Inr ''void''"
    unfolding e by (simp only: option.case)
  from a b c d e show ?thesis by simp
qed

text \<open>
  Claim C1, as stated, fails on a member that is a reference: it has no content entry at
  all, and resolves to the name of the referenced response, not to \<open>void\<close>.
\<close>

theorem reference_response_not_void:
  "content (refResponse ''#/components/responses/Ok'') = None \<and>
   responseTypes pascalWords
     (simpleOperation ''getPet'' [] [(''200'', refResponse ''#/components/responses/Ok'')]) =
     Inr ''OkResponse''"
  by code_simp


section \<open>Properties of the schema definitions\<close>

lemma getObject_record:
  assumes "\<not> isReference s" "allOf s = None" "oneOf s = None"
    "\<not> truthy (type s) \<or> type s = Some ''object''" "getObject pascal s = Inr t"
  shows "startsWith t ''{'' \<and> last t = CHR ''}''"
proof -
  let ?falsy = "additionalProperties s \<in> {None, Some (AdditionalBool False)}"
  let ?O1 = "case properties s of
                 None \<Rightarrow> Inr ''{\<newline>''
               | Some ps \<Rightarrow>
                   (case resolveProperties pascal (case required s of None \<Rightarrow> [] | Some r \<Rightarrow> r) ps of
                      Inl e \<Rightarrow> Inl e
                    | Inr ls \<Rightarrow> Inr (''{\<newline>'' @ join ls ''\<newline>''))"
  let ?O2 = "\<lambda>output1. case additionalProperties s of
                 None \<Rightarrow> Inr output1
               | Some (AdditionalBool False) \<Rightarrow> Inr output1
               | Some (AdditionalBool True) \<Rightarrow>
                   Inr (output1 @ (if properties s \<noteq> None then ''\<newline>'' else []) @
                        ''  [key: string]: any;'')
               | Some (AdditionalSchema a) \<Rightarrow>
                   (case resolveValue pascal (Some a) of
                      Inl e \<Rightarrow> Inl e
                    | Inr t \<Rightarrow>
                        Inr (output1 @ (if properties s \<noteq> None then ''\<newline>'' else []) @
                             ''  [key: string]: '' @ t @ '';''))"
  have o1: "\<exists>r. output1 = CHR ''{'' # r" if "?O1 = Inr output1" for output1
    using that by (auto split: option.splits sum.splits)
  have o2: "\<exists>r. output2 = CHR ''{'' # r" if "?O2 output1 = Inr output2" "\<exists>r. output1 = CHR ''{'' # r"
    for output1 output2
    using that by (auto split: option.splits additional.splits bool.splits sum.splits)
  show ?thesis
  proof (cases "properties s = None \<and> ?falsy")
    case True
    with assms show ?thesis
      by (auto simp: getObject.simps startsWith_def)
  next
    case False
    show ?thesis
    proof (cases "type s = Some ''object'' \<and> properties s = None \<and>
         (case additionalProperties s of
            None \<Rightarrow> True
          | Some (AdditionalBool b) \<Rightarrow> True
          | Some (AdditionalSchema a) \<Rightarrow> isEmpty a)")
      case True
      with assms show ?thesis
        by (auto simp: getObject.simps startsWith_def)
    next
      case notfree: False
      from False have nf: "\<not> (\<not> truthy (type s) \<and> properties s = None \<and> ?falsy)" by auto
      from False have c: "properties s \<noteq> None \<or> \<not> ?falsy" by auto
      from assms(5) have "(case ?O1 of Inl e \<Rightarrow> Inl e | Inr output1 \<Rightarrow>
          (case ?O2 output1 of Inl e \<Rightarrow> Inl e | Inr output2 \<Rightarrow>
             if output2 = ''{\<newline>'' then Inr ''{}'' else Inr (output2 @ ''\<newline>}''))) = Inr t"
        unfolding getObject.simps [of pascal s]
        using assms(1-3) nf notfree c by (simp only: if_False if_True option.case)
      then have eq: "(case ?O1 of Inl e \<Rightarrow> Inl e | Inr output1 \<Rightarrow>
          (case ?O2 output1 of Inl e \<Rightarrow> Inl e | Inr output2 \<Rightarrow>
             if output2 = ''{\<newline>'' then Inr ''{}'' else Inr (output2 @ ''\<newline>}''))) = Inr t" .
      show ?thesis
      proof (cases ?O1)
        case (Inl e)
        from eq show ?thesis unfolding Inl by (simp only: sum.case sum.distinct)
      next
        case 1: (Inr output1)
        show ?thesis
        proof (cases "?O2 output1")
          case (Inl e)
          from eq show ?thesis unfolding 1 sum.case Inl by (simp only: sum.case sum.distinct)
        next
          case 2: (Inr output2)
          from o2 [OF 2 o1 [OF 1]] obtain r where r: "output2 = CHR ''{'' # r" by blast
          from eq have "(if output2 = ''{\<newline>'' then Inr ''{}'' else Inr (output2 @ ''\<newline>}'')) =
              (Inr t :: error + string)"
            unfolding 1 sum.case 2 .
          with r show ?thesis
            by (auto simp: startsWith_def split: if_splits)
        qed
      qed
    qed
  qed
qed

lemma mapE_length: "mapE f xs = Inr ys \<Longrightarrow> length ys = length xs"
  by (induction xs arbitrary: ys) (auto split: sum.splits)

lemma getScalar_object:
  "\<not> truthy (type s) \<or> type s = Some ''object'' \<Longrightarrow>
   getScalar pascal (Some s) =
     (case getObject pascal s of
        Inl e \<Rightarrow> Inl e
      | Inr t \<Rightarrow> Inr (t @ (if nullable s = Some True then '' | null'' else [])))"
proof -
  assume "\<not> truthy (type s) \<or> type s = Some ''object''"
  then consider "type s = None" | "type s = Some []" | "type s = Some ''object''"
    by (cases "type s") auto
  then show ?thesis
    by cases (simp_all add: getScalar.simps(2) Let_def)
qed

text \<open>
  Claim C6.  For an entry \<open>(name, s)\<close> of the schemas table, \<open>generateSchemasDefinition\<close> emits
  an interface declaration exactly when \<open>s\<close> is an inline schema (not a reference) with no
  type or the type \<open>object\<close>, without \<open>allOf\<close>, without \<open>oneOf\<close> and not nullable; the type
  that follows the name of the interface is then the resolved type of \<open>s\<close>, which is a
  record: it opens with a brace and closes with one.  In every other case it emits the type
  alias \<^verbatim>\<open>export type Name = T;\<close> where \<open>T\<close> is the resolved type of \<open>s\<close>.  The output holds
  one declaration for each entry.
\<close>

theorem schema_definition_kind:
  "(\<not> isReference s \<and> (\<not> truthy (type s) \<or> type s = Some ''object'') \<and> allOf s = None \<and>
    oneOf s = None \<and> nullable s \<noteq> Some True \<longrightarrow>
      schemaDefinition pascal (name, s) =
        (case getScalar pascal (Some s) of
           Inl e \<Rightarrow> Inl e
         | Inr t \<Rightarrow>
             Inr (formatDescription (description s) 0 @ ''export interface '' @ pascal name @
                  '' '' @ t)) \<and>
      (\<forall>t. getScalar pascal (Some s) = Inr t \<longrightarrow>
         resolveValue pascal (Some s) = Inr t \<and> startsWith t ''{'' \<and> last t = CHR ''}'')) \<and>
   (\<not> (\<not> isReference s \<and> (\<not> truthy (type s) \<or> type s = Some ''object'') \<and> allOf s = None \<and>
       oneOf s = None \<and> nullable s \<noteq> Some True) \<longrightarrow>
      schemaDefinition pascal (name, s) =
        (case resolveValue pascal (Some s) of
           Inl e \<Rightarrow> Inl e
         | Inr t \<Rightarrow>
             Inr (formatDescription (if isReference s then None else description s) 0 @
                  ''export type '' @ pascal name @ '' = '' @ t @ '';''))) \<and>
   (generateSchemasDefinition pascal (Some entries) = Inr out \<and> entries \<noteq> [] \<longrightarrow>
      (\<exists>ds. mapE (schemaDefinition pascal) entries = Inr ds \<and> length ds = length entries \<and>
            out = join ds ''\<newline>\<newline>'' @ ''\<newline>''))"
proof -
  let ?c = "\<not> isReference s \<and> (\<not> truthy (type s) \<or> type s = Some ''object'') \<and> allOf s = None \<and>
    oneOf s = None \<and> nullable s \<noteq> Some True"
  have i: "schemaDefinition pascal (name, s) =
        (case getScalar pascal (Some s) of
           Inl e \<Rightarrow> Inl e
         | Inr t \<Rightarrow>
             Inr (formatDescription (description s) 0 @ ''export interface '' @ pascal name @
                  '' '' @ t))" if ?c
    using that by (simp add: schemaDefinition_def generateInterface_def)
  have r: "resolveValue pascal (Some s) = Inr t \<and> startsWith t ''{'' \<and> last t = CHR ''}''"
    if c: ?c and g: "getScalar pascal (Some s) = Inr t" for t
  proof -
    from c g have "getObject pascal s = Inr t"
      by (simp add: getScalar_object split: sum.splits)
    with c getObject_record [of s pascal t] g show ?thesis
      by (simp add: resolveValue.simps(2))
  qed
  have a: "schemaDefinition pascal (name, s) =
        (case resolveValue pascal (Some s) of
           Inl e \<Rightarrow> Inl e
         | Inr t \<Rightarrow>
             Inr (formatDescription (if isReference s then None else description s) 0 @
                  ''export type '' @ pascal name @ '' = '' @ t @ '';''))" if "\<not> ?c"
    using that unfolding schemaDefinition_def by (simp only: prod.case if_False conj_assoc [symmetric]) auto
  have w: "\<exists>ds. mapE (schemaDefinition pascal) entries = Inr ds \<and> length ds = length entries \<and>
            out = join ds ''\<newline>\<newline>'' @ ''\<newline>''"
    if "generateSchemasDefinition pascal (Some entries) = Inr out" "entries \<noteq> []"
    using that mapE_length [of "schemaDefinition pascal" entries]
    by (auto simp: generateSchemasDefinition_def split: sum.splits)
  show ?thesis using i r a w by blast
qed

theorem schema_definition_kind_witness:
  "schemaDefinition pascalWords (''pet'', objectSchema [(''name'', typeSchema ''string'')]) =
     Inr ''export interface Pet {\<newline>  name?: string;\<newline>}'' \<and>
   schemaDefinition pascalWords (''pet_id'', typeSchema ''string'') =
     Inr ''export type PetId = string;'' \<and>
   generateSchemasDefinition pascalWords
     (Some [(''pet'', objectSchema [(''name'', typeSchema ''string'')]),
            (''pet_id'', typeSchema ''string'')]) =
     Inr ''export interface Pet {\<newline>  name?: string;\<newline>}\<newline>\<newline>export type PetId = string;\<newline>''"
proof -
  let ?pet = "objectSchema [(''name'', typeSchema ''string'')]"
  let ?entries = "[(''pet'', ?pet), (''pet_id'', typeSchema ''string'')]"
  have c1: "\<not> isReference ?pet \<and> (\<not> truthy (type ?pet) \<or> type ?pet = Some ''object'') \<and>
      allOf ?pet = None \<and> oneOf ?pet = None \<and> nullable ?pet \<noteq> Some True"
    by (simp add: objectSchema_def isReference_def)
  have c2: "\<not> (\<not> isReference (typeSchema ''string'') \<and>
      (\<not> truthy (type (typeSchema ''string'')) \<or> type (typeSchema ''string'') = Some ''object'') \<and>
      allOf (typeSchema ''string'') = None \<and> oneOf (typeSchema ''string'') = None \<and>
      nullable (typeSchema ''string'') \<noteq> Some True)"
    by (simp add: typeSchema_def)
  have e: "getScalar pascalWords (Some ?pet) = Inr ''{\<newline>  name?: string;\<newline>}''"
    "resolveValue pascalWords (Some (typeSchema ''string'')) = Inr ''string''"
    "formatDescription (description ?pet) 0 = []"
    "formatDescription (if isReference (typeSchema ''string'') then None
       else description (typeSchema ''string'')) 0 = []"
    "pascalWords ''pet'' = ''Pet''" "pascalWords ''pet_id'' = ''PetId''"
    "generateSchemasDefinition pascalWords (Some ?entries) =
       Inr ''export interface Pet {\<newline>  name?: string;\<newline>}\<newline>\<newline>export type PetId = string;\<newline>''"
    by code_simp+
  from schema_definition_kind [of ?pet pascalWords "''pet''" ?entries] c1
  have "schemaDefinition pascalWords (''pet'', ?pet) =
        (case getScalar pascalWords (Some ?pet) of
           Inl e \<Rightarrow> Inl e
         | Inr t \<Rightarrow>
             Inr (formatDescription (description ?pet) 0 @ ''export interface '' @ pascalWords ''pet'' @
                  '' '' @ t))" by blast
  then have a: "schemaDefinition pascalWords (''pet'', ?pet) =
      Inr ''export interface Pet {\<newline>  name?: string;\<newline>}''"
    unfolding e by simp
  from schema_definition_kind [of "typeSchema ''string''" pascalWords "''pet_id''" ?entries] c2
  have "schemaDefinition pascalWords (''pet_id'', typeSchema ''string'') =
        (case resolveValue pascalWords (Some (typeSchema ''string'')) of
           Inl e \<Rightarrow> Inl e
         | Inr t \<Rightarrow>
             Inr (formatDescription (if isReference (typeSchema ''string'') then None
                    else description (typeSchema ''string'')) 0 @
                  ''export type '' @ pascalWords ''pet_id'' @ '' = '' @ t @ '';''))" by blast
  then have b: "schemaDefinition pascalWords (''pet_id'', typeSchema ''string'') =
     Inr ''export type PetId = string;''"
    unfolding e by simp
  from a b e(7) show ?thesis by simp
qed

section \<open>Properties of the discriminator propagator\<close>

text \<open>
  What \<^verbatim>\<open>set\<close> has written is found again at the keys of the path.  When neither the name of
  the target schema nor the name of the property has a dot, one pair of a mapping writes the
  list \<open>[name]\<close> under \<^verbatim>\<open>enum\<close> of that property of the target; a pointer outside
  \<^verbatim>\<open>#/components/schemas/\<close> throws.
\<close>

lemma map_of_insertKey: "k \<notin> fst ` set kvs \<Longrightarrow> map_of (insertKey k v kvs) k = Some v"
  by (induction kvs) auto

lemma own_assign: "own (assign kvs k v) k = v"
proof (cases "k \<in> fst ` set kvs")
  case True
  then have "map_of (map (\<lambda>(k', v'). if k' = k then (k', v) else (k', v')) kvs) k = Some v"
    by (induction kvs) auto
  with True show ?thesis by (simp add: own_def assign_def)
next
  case False
  then show ?thesis by (simp add: own_def assign_def map_of_insertKey)
qed

lemma getPath_baseSet:
  "ks \<noteq> [] \<Longrightarrow> \<forall>k \<in> set ks. \<not> unsafeKey k \<Longrightarrow>
   getPath (baseSet (JObject a kvs) ks v) ks = v"
proof (induction ks arbitrary: a kvs)
  case Nil
  then show ?case by simp
next
  case (Cons k ks)
  have k: "\<not> unsafeKey k" using Cons.prems(2) by simp
  show ?case
  proof (cases ks)
    case Nil
    then show ?thesis using k by (simp add: own_assign)
  next
    case (Cons k' rest)
    let ?child = "if isObject (own kvs k) then own kvs k else JObject (isIndex k') []"
    obtain b kvs' where c: "?child = JObject b kvs'"
      by (cases "own kvs k") auto
    have "getPath (baseSet ?child (k' # rest) v) (k' # rest) = v"
      unfolding c using Cons.IH [of b kvs'] Cons Cons.prems(2) by simp
    then show ?thesis using Cons k by (simp add: own_assign)
  qed
qed

lemma split_none: "sep \<notin> set a \<Longrightarrow> split a sep = [a]"
  by (induction a) auto

lemma split_first: "sep \<notin> set a \<Longrightarrow> split (a @ sep # b) sep = a # split b sep"
  by (induction a) (auto split: list.splits)

lemma stringToPath_enum:
  assumes "CHR ''.'' \<notin> set n" "CHR ''.'' \<notin> set p"
  shows "stringToPath (''components.schemas.'' @ n @ ''.properties.'' @ p @ ''.enum'') =
    [''components'', ''schemas'', n, ''properties'', p, ''enum'']"
  using assms by (simp add: stringToPath_def split_first)

lemma forEachMapping_outside:
  "\<not> startsWith r ''#/components/schemas/'' \<Longrightarrow>
   forEachMapping specs p ((name, JStr r) # rest) = Inl DiscriminatorOutsideSchemas"
  by simp

lemma unsafeKey_fixed:
  "\<not> unsafeKey ''components''" "\<not> unsafeKey ''schemas''" "\<not> unsafeKey ''properties''"
  "\<not> unsafeKey ''enum''"
  by (simp_all add: unsafeKey_def)

lemma forEachMapping_enum:
  assumes "CHR ''.'' \<notin> set n" "CHR ''.'' \<notin> set p"
    and "''components.schemas.'' @ n @ ''.properties.'' @ p @ ''.enum'' \<notin> fst ` set kvs"
    and "\<not> unsafeKey n" "\<not> unsafeKey p"
  shows "\<exists>specs'. forEachMapping (JObject a kvs) p [(name, JStr (''#/components/schemas/'' @ n))] =
      Inr specs' \<and>
    getPath specs' [''components'', ''schemas'', n, ''properties'', p, ''enum''] =
      JObject True [(''0'', JStr name)]"
proof -
  let ?path = "''components.schemas.'' @ n @ ''.properties.'' @ p @ ''.enum''"
  have "castPath ?path (map fst kvs) = [''components'', ''schemas'', n, ''properties'', p, ''enum'']"
    using assms(3) stringToPath_enum [OF assms(1,2)] by (simp add: castPath_def)
  then have "getPath (set_path (JObject a kvs) ?path (JObject True [(''0'', JStr name)]))
      [''components'', ''schemas'', n, ''properties'', p, ''enum''] = JObject True [(''0'', JStr name)]"
    unfolding set_path_def
    using getPath_baseSet [of "[''components'', ''schemas'', n, ''properties'', p, ''enum'']"]
      assms(4,5) unsafeKey_fixed
    by simp
  then have g: "getPath (set_path (JObject a kvs) ?path (JObject True [(''0'', JStr name)]))
      [''components'', ''schemas'', n, ''properties'', p, ''enum''] = JObject True [(''0'', JStr name)]" .
  have sw: "startsWith (''#/components/schemas/'' @ n) ''#/components/schemas/''"
    by (rule startsWith_append)
  have dr: "drop (length ''#/components/schemas/'') (''#/components/schemas/'' @ n) = n"
    by simp
  have "forEachMapping (JObject a kvs) p [(name, JStr (''#/components/schemas/'' @ n))] =
      Inr (set_path (JObject a kvs) ?path (JObject True [(''0'', JStr name)]))"
    by (simp only: forEachMapping.simps sw dr simp_thms if_False)
  with g show ?thesis by blast
qed

lemma resolveDiscriminator_example:
  "map_sum id (\<lambda>specs. getPath specs [''components'', ''schemas'', ''Dog'', ''properties'', ''petType'', ''enum''])
     (resolveDiscriminator
        (document [(''Pet'', petDiscriminator ''#/components/schemas/Dog''), (''Dog'', dogSchema)])) =
   Inr (arr [JStr ''dog''])"
  by code_simp

lemma resolveDiscriminator_constructor:
  "resolveDiscriminator
     (document [(''Pet'', petDiscriminator ''#/components/schemas/constructor''), (''Dog'', dogSchema)]) =
   Inr (document [(''Pet'', petDiscriminator ''#/components/schemas/constructor''), (''Dog'', dogSchema)])"
  by code_simp

lemma resolveDiscriminator_outside:
  "resolveDiscriminator
     (document [(''Pet'', petDiscriminator ''#/definitions/Dog''), (''Dog'', dogSchema)]) =
   Inl DiscriminatorOutsideSchemas"
  by code_simp


text \<open>
  Claim C5.  The claim: every pair \<open>(name, ref)\<close> of a mapping overwrites, in the schema that
  \<open>ref\<close> names, \<^verbatim>\<open>properties[propertyName].enum\<close> with \<open>[name]\<close>.  The path that the code hands to
  \<^verbatim>\<open>set\<close> is built by putting the name of the schema between dots.  OpenAPI allows a dot in
  the name of a component: for the schema \<^verbatim>\<open>Dog.v1\<close> the path is cut into \<^verbatim>\<open>Dog\<close> and \<^verbatim>\<open>v1\<close>, the
  schema \<^verbatim>\<open>Dog.v1\<close> is left as it was, and a schema \<^verbatim>\<open>Dog\<close> is created that holds the list under
  \<^verbatim>\<open>v1.properties.petType.enum\<close>.
\<close>

theorem resolveDiscriminator_dotted_name:
  "map_sum id (\<lambda>specs. (getPath specs [''components'', ''schemas'', ''Dog.v1''],
                        getPath specs [''components'', ''schemas'', ''Dog'']))
     (resolveDiscriminator
        (document [(''Pet'', petDiscriminator ''#/components/schemas/Dog.v1''),
                   (''Dog.v1'', dogSchema)])) =
   Inr (dogSchema,
        obj [(''v1'', obj [(''properties'',
               obj [(''petType'', obj [(''enum'', arr [JStr ''dog''])])])])])"
  by code_simp

end
